theory Spec2Isabelle
  imports Main
begin

section \<open>The job repository (app/db/models.py, app/api/v1/schemas/generate.py, app/crud/crud_job.py)\<close>

subsection \<open>Data model\<close>

text \<open>
  \<^verbatim>\<open>class JobStatus(str, enum.Enum)\<close> of models.py.
\<close>

datatype JobStatus = PENDING | PROCESSING | COMPLETED | FAILED

type_synonym UUID = nat

type_synonym timestamp = int

text \<open>
  The pydantic schema \<^verbatim>\<open>JobCreate\<close> (all of \<^verbatim>\<open>JobBase\<close>): two required strings
  and one optional string. The schema puts no length constraint on \<^verbatim>\<open>prompt\<close>.
\<close>

record JobCreate =
  prompt :: string
  initial_image_key :: string
  reference_image_key :: "string option"

text \<open>
  The pydantic schema \<^verbatim>\<open>JobUpdate\<close>: both fields default to \<^verbatim>\<open>None\<close>. Pydantic
  records in \<^verbatim>\<open>model_fields_set\<close> which fields the caller passed, so a field passed
  as \<^verbatim>\<open>None\<close> differs from a field not passed.
\<close>

record JobUpdate =
  status :: "JobStatus option"
  generated_image_key :: "string option"
  model_fields_set :: "string set"

text \<open>
  A row of the table \<^verbatim>\<open>generation_jobs\<close> (class \<^verbatim>\<open>GenerationJob\<close>). The column
  \<^verbatim>\<open>id\<close> is named \<open>id_col\<close> here. \<^verbatim>\<open>status\<close> has a default and no
  \<^verbatim>\<open>nullable=False\<close>, so it can hold NULL: its type is an option.
\<close>

record GenerationJob =
  id_col :: int
  uuid :: UUID
  prompt :: string
  status :: "JobStatus option"
  initial_image_key :: string
  reference_image_key :: "string option"
  generated_image_key :: "string option"
  created_at :: timestamp
  updated_at :: timestamp

text \<open>
  The database behind the \<^verbatim>\<open>AsyncSession\<close>: the rows of the table in insertion
  order and the next value of the primary-key sequence.
\<close>

record database =
  rows :: "GenerationJob list"
  next_id :: int

datatype db_error = IntegrityError

subsection \<open>Operations\<close>

text \<open>
  \<^verbatim>\<open>create_job\<close>: the model instance gets the three dumped fields; the INSERT fills
  the primary key from the sequence, \<^verbatim>\<open>uuid\<close> from its default \<^verbatim>\<open>uuid.uuid4\<close> (the
  drawn value is the argument \<open>new_uuid\<close>), \<^verbatim>\<open>status\<close> from its default
  \<^verbatim>\<open>JobStatus.PENDING\<close> and both timestamps from \<^verbatim>\<open>func.now()\<close> (the argument
  \<open>now\<close>). \<^verbatim>\<open>uuid\<close> is declared \<^verbatim>\<open>unique=True\<close>: a drawn value that a row
  already holds makes the commit raise.
\<close>

definition create_job ::
  "database \<Rightarrow> timestamp \<Rightarrow> UUID \<Rightarrow> JobCreate \<Rightarrow> db_error + (GenerationJob \<times> database)" where
  "create_job db now new_uuid job_in =
     (if \<exists>r \<in> set (rows db). uuid r = new_uuid then Inl IntegrityError
      else
        let db_job = \<lparr> id_col = next_id db,
                       uuid = new_uuid,
                       prompt = JobCreate.prompt job_in,
                       status = Some PENDING,
                       initial_image_key = JobCreate.initial_image_key job_in,
                       reference_image_key = JobCreate.reference_image_key job_in,
                       generated_image_key = None,
                       created_at = now,
                       updated_at = now \<rparr>
        in Inr (db_job, \<lparr> rows = rows db @ [db_job], next_id = next_id db + 1 \<rparr>))"

text \<open>
  \<^verbatim>\<open>get_job_by_uuid\<close>: \<^verbatim>\<open>select(...).where(GenerationJob.uuid == job_uuid)\<close>, then
  \<^verbatim>\<open>.first()\<close>.
\<close>

definition get_job_by_uuid :: "database \<Rightarrow> UUID \<Rightarrow> GenerationJob option" where
  "get_job_by_uuid db job_uuid = find (\<lambda>r. uuid r = job_uuid) (rows db)"

text \<open>
  The commit of a loaded object: the row with the object's primary key takes the object's
  state. \<^verbatim>\<open>updated_at\<close> has \<^verbatim>\<open>onupdate=func.now()\<close>, which fires with the UPDATE
  statement; the unit of work emits one only when some attribute differs from the loaded
  state \<open>loaded\<close>.
\<close>

definition commit_update ::
  "timestamp \<Rightarrow> database \<Rightarrow> GenerationJob \<Rightarrow> GenerationJob \<Rightarrow> GenerationJob \<times> database" where
  "commit_update now db loaded job =
     (let job' = (if job = loaded then job else job\<lparr>updated_at := now\<rparr>)
      in (job', db\<lparr>rows := map (\<lambda>r. if id_col r = id_col job then job' else r) (rows db)\<rparr>))"

text \<open>
  \<^verbatim>\<open>job_in.model_dump(exclude_unset=True)\<close>: the fields of \<^verbatim>\<open>model_fields_set\<close> with
  their values, in declaration order.
\<close>

datatype column_value = StatusValue "JobStatus option" | TextValue "string option"

definition model_dump_exclude_unset :: "JobUpdate \<Rightarrow> (string \<times> column_value) list" where
  "model_dump_exclude_unset job_in =
     (if ''status'' \<in> model_fields_set job_in
      then [(''status'', StatusValue (JobUpdate.status job_in))] else []) @
     (if ''generated_image_key'' \<in> model_fields_set job_in
      then [(''generated_image_key'', TextValue (JobUpdate.generated_image_key job_in))] else [])"

text \<open>\<^verbatim>\<open>setattr(db_job, field, value)\<close> for the two columns a \<^verbatim>\<open>JobUpdate\<close> can name.\<close>

fun setattr :: "GenerationJob \<Rightarrow> string \<Rightarrow> column_value \<Rightarrow> GenerationJob" where
  "setattr db_job field (StatusValue v) =
     (if field = ''status'' then db_job\<lparr>status := v\<rparr> else db_job)"
| "setattr db_job field (TextValue v) =
     (if field = ''generated_image_key'' then db_job\<lparr>generated_image_key := v\<rparr> else db_job)"

text \<open>
  \<^verbatim>\<open>update_job\<close>: the loop \<^verbatim>\<open>for field, value in update_data.items(): setattr(...)\<close>,
  then add, commit, refresh. \<open>db_job\<close> is an object loaded from \<open>db\<close>.
\<close>

definition update_job ::
  "database \<Rightarrow> timestamp \<Rightarrow> GenerationJob \<Rightarrow> JobUpdate \<Rightarrow> GenerationJob \<times> database" where
  "update_job db now db_job job_in =
     (let update_data = model_dump_exclude_unset job_in;
          job = foldl (\<lambda>j (field, v). setattr j field v) db_job update_data
      in commit_update now db db_job job)"

text \<open>
  \<^verbatim>\<open>delete_job\<close>: look the job up; when it exists delete its row; return what the lookup
  gave.
\<close>

definition delete_job :: "database \<Rightarrow> UUID \<Rightarrow> GenerationJob option \<times> database" where
  "delete_job db job_uuid =
     (case get_job_by_uuid db job_uuid of
        None \<Rightarrow> (None, db)
      | Some job_to_delete \<Rightarrow>
          (Some job_to_delete,
           db\<lparr>rows := filter (\<lambda>r. id_col r \<noteq> id_col job_to_delete) (rows db)\<rparr>))"

text \<open>
  \<^verbatim>\<open>update_job_status\<close>: \<^verbatim>\<open>None\<close> when the job is not found; otherwise the status is
  assigned, the key only under \<^verbatim>\<open>if generated_key is not None\<close>.
\<close>

definition update_job_status ::
  "database \<Rightarrow> timestamp \<Rightarrow> UUID \<Rightarrow> JobStatus \<Rightarrow> string option \<Rightarrow> GenerationJob option \<times> database" where
  "update_job_status db now job_uuid new_status generated_key =
     (case get_job_by_uuid db job_uuid of
        None \<Rightarrow> (None, db)
      | Some loaded \<Rightarrow>
          let job = loaded\<lparr>status := Some new_status\<rparr>;
              job = (case generated_key of
                       None \<Rightarrow> job
                     | Some k \<Rightarrow> job\<lparr>generated_image_key := Some k\<rparr>)
          in (case commit_update now db loaded job of (job', db') \<Rightarrow> (Some job', db')))"

subsection \<open>The lifecycle invariant of the specification\<close>

definition job_invariant :: "GenerationJob \<Rightarrow> bool" where
  "job_invariant j = ((status j = Some COMPLETED) = (generated_image_key j \<noteq> None))"

definition db_invariant :: "database \<Rightarrow> bool" where
  "db_invariant db = list_all job_invariant (rows db)"

section \<open>The upstream image client (app/services/openrouter_service.py)\<close>

text \<open>
  The module's functions keep their names, without the leading underscore of the private
  ones. The parameter \<^verbatim>\<open>prompt\<close> is \<open>prompt_text\<close> here, since \<open>prompt\<close> names a
  column of the job. Every function that talks to the provider or the web takes the state
  and returns it with its result; a raise is the \<open>Inl\<close> of a sum.
\<close>

subsection \<open>Values, failures and the outside world\<close>

type_synonym bytes = "nat list"

text \<open>
  The exceptions that leave the module: its two domain errors, any other exception (one
  of \<^verbatim>\<open>requests\<close>, for instance), and tenacity's \<^verbatim>\<open>RetryError\<close>, which wraps the
  exception of the last attempt.
\<close>

datatype exn =
    ImageGenerationError string
  | UpstreamUnavailable string
  | OtherException string
  | RetryError exn

text \<open>
  JSON-like data, as \<^verbatim>\<open>model_dump()\<close> returns it and as \<^verbatim>\<open>extra_body\<close> holds it. A
  dict keeps its items in order. Numbers are integers here.
\<close>

datatype json =
    JNull
  | JBool bool
  | JNum int
  | JStr string
  | JList "json list"
  | JDict "(string \<times> json) list"

text \<open>A part of the message sent: \<^verbatim>\<open>{"type": "text", "text": t}\<close> or
  \<^verbatim>\<open>{"type": "image_url", "image_url": {"url": u}}\<close>.\<close>

datatype content_part = TextPart string | ImageUrlPart string

datatype message = Message string "content_part list"

text \<open>A part of the fallback input: \<^verbatim>\<open>input_text\<close> or \<^verbatim>\<open>input_image\<close>.\<close>

datatype input_part = InputText string | InputImage string

datatype input_message = InputMessage string "input_part list"

text \<open>
  The two provider calls with what they are given: the client's api key, then
  \<^verbatim>\<open>model\<close>, \<^verbatim>\<open>messages\<close>, \<^verbatim>\<open>extra_headers\<close>, \<^verbatim>\<open>extra_body\<close> for
  \<^verbatim>\<open>chat.completions.create\<close>, and \<^verbatim>\<open>model\<close>, \<^verbatim>\<open>input\<close>, \<^verbatim>\<open>extra_body\<close> for
  \<^verbatim>\<open>responses.create\<close>.
\<close>

datatype chat_request =
  ChatRequest "string option" string "message list" "(string \<times> string) list option"
    "(string \<times> json) list"

datatype responses_request =
  ResponsesRequest "string option" string "input_message list" "(string \<times> json) list"

text \<open>What a provider call does: it returns, raises \<^verbatim>\<open>openai.NotFoundError\<close>, or raises
  another exception.\<close>

datatype 'a api_outcome = Returned 'a | NotFoundError string | OtherError string

text \<open>What \<^verbatim>\<open>requests.get\<close> does: a response with its status code and body, or an
  exception of \<^verbatim>\<open>requests\<close>.\<close>

datatype http_outcome = Response int bytes | RequestException string

text \<open>
  A part of a reply's content list, read through \<^verbatim>\<open>_get\<close>: its \<^verbatim>\<open>type\<close>, its
  \<^verbatim>\<open>image_url\<close> container (a dict or an object, with its \<^verbatim>\<open>url\<close> when it has one),
  \<^verbatim>\<open>b64_json\<close> and \<^verbatim>\<open>b64\<close>. A missing key or attribute reads as \<^verbatim>\<open>None\<close>.
\<close>

datatype url_container = UrlContainer "string option"

record part =
  ptype :: "string option"
  image_url :: "url_container option"
  b64_json :: "string option"
  b64 :: "string option"

text \<open>The content of the first choice's message: a string (the list of its code
  points), a list of parts, or anything else (\<^verbatim>\<open>None\<close> included).\<close>

datatype message_content = ContentStr "nat list" | ContentList "part list" | ContentOther

text \<open>A chat completion with the contents of its choices' messages. A reply on which
  \<^verbatim>\<open>resp.choices[0].message\<close> raises is the one with no choice.\<close>

datatype chat_completion = ChatCompletion "message_content list"

datatype call =
    ChatCompletionsCreate chat_request
  | ResponsesCreate responses_request
  | RequestsGet string

text \<open>
  The outside world: the provider and the web answer from a world state \<open>'w\<close> and move
  it on. \<^verbatim>\<open>base64.b64decode\<close> is a pure function of the standard library (\<open>None\<close>
  where it raises); \<^verbatim>\<open>settings.OPENROUTER_API_KEY\<close> comes from the configuration.
\<close>

record 'w env =
  chat_completions_create :: "chat_request \<Rightarrow> 'w \<Rightarrow> chat_completion api_outcome \<times> 'w"
  responses_create :: "responses_request \<Rightarrow> 'w \<Rightarrow> json option api_outcome \<times> 'w"
  requests_get :: "string \<Rightarrow> 'w \<Rightarrow> http_outcome \<times> 'w"
  b64decode :: "string \<Rightarrow> bytes option"
  OPENROUTER_API_KEY :: "string option"

text \<open>The state threaded through the client: the world and the calls made so far.\<close>

record 'w state =
  world :: 'w
  calls :: "call list"

subsection \<open>Python's truth values and \<^verbatim>\<open>str\<close> of an integer\<close>

definition truthy_str :: "string option \<Rightarrow> bool" where
  "truthy_str v = (v \<noteq> None \<and> v \<noteq> Some [])"

definition truthy_bytes :: "bytes option \<Rightarrow> bool" where
  "truthy_bytes v = (v \<noteq> None \<and> v \<noteq> Some [])"

fun truthy :: "json \<Rightarrow> bool" where
  "truthy JNull = False"
| "truthy (JBool b) = b"
| "truthy (JNum n) = (n \<noteq> 0)"
| "truthy (JStr s) = (s \<noteq> [])"
| "truthy (JList xs) = (xs \<noteq> [])"
| "truthy (JDict kvs) = (kvs \<noteq> [])"

text \<open>\<^verbatim>\<open>obj.get(name)\<close> on a dict, whose keys are distinct.\<close>

definition dict_get :: "(string \<times> json) list \<Rightarrow> string \<Rightarrow> json" where
  "dict_get obj name = (case map_of obj name of None \<Rightarrow> JNull | Some v \<Rightarrow> v)"

fun str_nat :: "nat \<Rightarrow> string" where
  "str_nat n = (if n < 10 then [''0123456789'' ! n]
                else str_nat (n div 10) @ [''0123456789'' ! (n mod 10)])"

declare str_nat.simps [simp del]

definition str_int :: "int \<Rightarrow> string" where
  "str_int i = (if i < 0 then CHR ''-'' # str_nat (nat (- i)) else str_nat (nat i))"

subsection \<open>Request construction\<close>

text \<open>
  \<^verbatim>\<open>_build_messages\<close>: the text part, then an image part under \<^verbatim>\<open>if initial_url:\<close>
  and one under \<^verbatim>\<open>if reference_url:\<close>, in one user message.
\<close>

definition build_messages :: "string \<Rightarrow> string option \<Rightarrow> string option \<Rightarrow> message list" where
  "build_messages prompt_text initial_url reference_url =
     (let content = [TextPart prompt_text];
          content = (if truthy_str initial_url
                     then content @ [ImageUrlPart (the initial_url)] else content);
          content = (if truthy_str reference_url
                     then content @ [ImageUrlPart (the reference_url)] else content)
      in [Message ''user'' content])"

subsection \<open>Reading a reply\<close>

text \<open>
  The regex of \<^verbatim>\<open>_extract_url_from_text\<close> reads its text character by character, and a
  character of a Python \<^verbatim>\<open>str\<close> is a Unicode code point. So the reply text is a list of
  code points here. The other strs, which the code only compares and passes on, are
  \<open>string\<close>s holding the bytes of their UTF-8 encoding; \<open>codepoints\<close> reads an ASCII
  literal as its code points, and \<open>utf8_encode\<close> gives the URL found to the fetch in the
  form the other strs have (three bytes for a lone surrogate too, so that distinct strs
  stay distinct).
\<close>

type_synonym unicode = "nat list"

definition codepoints :: "string \<Rightarrow> unicode" where
  "codepoints t = map of_char t"

definition utf8_encode_code_point :: "nat \<Rightarrow> nat list" where
  "utf8_encode_code_point c =
     (if c < 0x80 then [c]
      else if c < 0x800 then [0xC0 + c div 0x40, 0x80 + c mod 0x40]
      else if c < 0x10000
      then [0xE0 + c div 0x1000, 0x80 + (c div 0x40) mod 0x40, 0x80 + c mod 0x40]
      else [0xF0 + (c div 0x40000) mod 8, 0x80 + (c div 0x1000) mod 0x40,
            0x80 + (c div 0x40) mod 0x40, 0x80 + c mod 0x40])"

definition utf8_encode :: "unicode \<Rightarrow> string" where
  "utf8_encode t = map char_of (concat (map utf8_encode_code_point t))"

text \<open>
  What \<^verbatim>\<open>\s\<close> matches in a \<^verbatim>\<open>str\<close> pattern, which is what \<^verbatim>\<open>str.isspace\<close> accepts: the
  ASCII whitespace with the four separators below the space, next line, no-break space,
  and the space separators and line and paragraph separators beyond Latin-1. \<^verbatim>\<open>\S\<close>
  matches every other code point.
\<close>

definition is_space :: "nat \<Rightarrow> bool" where
  "is_space c =
     ((9 \<le> c \<and> c \<le> 13) \<or> (28 \<le> c \<and> c \<le> 32) \<or> c = 0x85 \<or> c = 0xA0 \<or> c = 0x1680 \<or>
      (0x2000 \<le> c \<and> c \<le> 0x200A) \<or> c = 0x2028 \<or> c = 0x2029 \<or> c = 0x202F \<or>
      c = 0x205F \<or> c = 0x3000)"

fun strip_prefix :: "'a list \<Rightarrow> 'a list \<Rightarrow> 'a list option" where
  "strip_prefix [] t = Some t"
| "strip_prefix (p # ps) [] = None"
| "strip_prefix (p # ps) (c # cs) = (if p = c then strip_prefix ps cs else None)"

text \<open>
  A match of \<^verbatim>\<open>https?://\S+\<close> that starts at the head of \<open>t\<close>: the scheme, then the
  whole run of characters that are not whitespace, which must not be empty.
\<close>

definition match_url_at :: "unicode \<Rightarrow> unicode option" where
  "match_url_at t =
     (case strip_prefix (codepoints ''https://'') t of
        Some rest \<Rightarrow>
          (if takeWhile (\<lambda>c. \<not> is_space c) rest \<noteq> []
           then Some (codepoints ''https://'' @ takeWhile (\<lambda>c. \<not> is_space c) rest)
           else None)
      | None \<Rightarrow>
          (case strip_prefix (codepoints ''http://'') t of
             Some rest \<Rightarrow>
               (if takeWhile (\<lambda>c. \<not> is_space c) rest \<noteq> []
                then Some (codepoints ''http://'' @ takeWhile (\<lambda>c. \<not> is_space c) rest)
                else None)
           | None \<Rightarrow> None))"

text \<open>
  \<^verbatim>\<open>_extract_url_from_text\<close>: \<^verbatim>\<open>re.search(r"https?://\S+", text)\<close> gives the leftmost
  match, and \<^verbatim>\<open>None\<close> when there is none.
\<close>

fun extract_url_from_text :: "unicode \<Rightarrow> unicode option" where
  "extract_url_from_text [] = None"
| "extract_url_from_text (c # cs) =
     (case match_url_at (c # cs) of
        Some u \<Rightarrow> Some u
      | None \<Rightarrow> extract_url_from_text cs)"

text \<open>\<^verbatim>\<open>_decode_b64\<close>: any exception of the decoder becomes \<^verbatim>\<open>ImageGenerationError\<close>.\<close>

definition decode_b64 :: "'w env \<Rightarrow> string \<Rightarrow> exn + bytes" where
  "decode_b64 E data_b64 =
     (case b64decode E data_b64 of
        Some b \<Rightarrow> Inr b
      | None \<Rightarrow> Inl (ImageGenerationError ''Failed to decode base64 image from upstream''))"

text \<open>
  \<^verbatim>\<open>_fetch_bytes_from_url\<close>: one \<^verbatim>\<open>requests.get\<close>, whose own exception is not caught
  here; then the two tests on the status code, in the order of the source.
\<close>

definition fetch_bytes_from_url :: "'w env \<Rightarrow> string \<Rightarrow> 'w state \<Rightarrow> (exn + bytes) \<times> 'w state" where
  "fetch_bytes_from_url E url s =
     (case requests_get E url (world s) of
        (resp, w) \<Rightarrow>
          (let s' = \<lparr> world = w, calls = calls s @ [RequestsGet url] \<rparr>
           in case resp of
                RequestException m \<Rightarrow> (Inl (OtherException m), s')
              | Response status_code body \<Rightarrow>
                  if status_code = 429 \<or> (500 \<le> status_code \<and> status_code < 600)
                  then (Inl (UpstreamUnavailable
                               (''Upstream URL fetch failed: '' @ str_int status_code)), s')
                  else if status_code \<ge> 400
                  then (Inl (ImageGenerationError
                               (''Failed to fetch image URL: '' @ str_int status_code)), s')
                  else (Inr body, s')))"

text \<open>
  \<^verbatim>\<open>_deep_find_image_payload\<close>. The whole body stands in a \<^verbatim>\<open>try\<close> whose handler
  returns \<^verbatim>\<open>None\<close>, so a failed decode or fetch ends the search of that dict with
  nothing. A truthy \<^verbatim>\<open>b64_json\<close> or \<^verbatim>\<open>url\<close> that is not a string makes the decode or
  the fetch raise before any request is sent. The two loops return the first result that
  is truthy.
\<close>

fun deep_find_image_payload :: "'w env \<Rightarrow> json \<Rightarrow> 'w state \<Rightarrow> bytes option \<times> 'w state"
  and deep_find_in_items :: "'w env \<Rightarrow> (string \<times> json) list \<Rightarrow> 'w state \<Rightarrow> bytes option \<times> 'w state"
  and deep_find_in_list :: "'w env \<Rightarrow> json list \<Rightarrow> 'w state \<Rightarrow> bytes option \<times> 'w state"
where
  "deep_find_image_payload E (JDict obj) s =
     (if truthy (dict_get obj ''b64_json'') then
        (case dict_get obj ''b64_json'' of
           JStr data_b64 \<Rightarrow>
             (case decode_b64 E data_b64 of Inr b \<Rightarrow> (Some b, s) | Inl e \<Rightarrow> (None, s))
         | _ \<Rightarrow> (None, s))
      else
        (case (if truthy (dict_get obj ''image_url'') then dict_get obj ''image_url'' else JNull) of
           JDict url_container \<Rightarrow>
             (if truthy (dict_get url_container ''url'') then
                (case dict_get url_container ''url'' of
                   JStr url \<Rightarrow>
                     (case fetch_bytes_from_url E url s of
                        (Inr b, s') \<Rightarrow> (Some b, s')
                      | (Inl e, s') \<Rightarrow> (None, s'))
                 | _ \<Rightarrow> (None, s))
              else deep_find_in_items E obj s)
         | _ \<Rightarrow> deep_find_in_items E obj s))"
| "deep_find_image_payload E (JList xs) s = deep_find_in_list E xs s"
| "deep_find_image_payload E JNull s = (None, s)"
| "deep_find_image_payload E (JBool b) s = (None, s)"
| "deep_find_image_payload E (JNum n) s = (None, s)"
| "deep_find_image_payload E (JStr t) s = (None, s)"
| "deep_find_in_items E [] s = (None, s)"
| "deep_find_in_items E ((k, v) # kvs) s =
     (case deep_find_image_payload E v s of
        (found, s') \<Rightarrow>
          if truthy_bytes found then (found, s') else deep_find_in_items E kvs s')"
| "deep_find_in_list E [] s = (None, s)"
| "deep_find_in_list E (v # vs) s =
     (case deep_find_image_payload E v s of
        (found, s') \<Rightarrow>
          if truthy_bytes found then (found, s') else deep_find_in_list E vs s')"

text \<open>
  \<^verbatim>\<open>_extract_bytes_from_part\<close>: for a part of type \<^verbatim>\<open>image_url\<close> or
  \<^verbatim>\<open>output_image\<close> with a truthy url, the fetched bytes; otherwise the decoded
  \<^verbatim>\<open>b64_json or b64\<close> when truthy; otherwise \<^verbatim>\<open>None\<close>.
\<close>

definition extract_bytes_from_part :: "'w env \<Rightarrow> part \<Rightarrow> 'w state \<Rightarrow> (exn + bytes option) \<times> 'w state" where
  "extract_bytes_from_part E p s =
     (let url = (if ptype p = Some ''image_url'' \<or> ptype p = Some ''output_image''
                 then (case image_url p of
                         Some (UrlContainer u) \<Rightarrow> u
                       | None \<Rightarrow> None)
                 else None)
      in if truthy_str url then
           (case fetch_bytes_from_url E (the url) s of
              (Inr b, s') \<Rightarrow> (Inr (Some b), s')
            | (Inl e, s') \<Rightarrow> (Inl e, s'))
         else
           (let b64_data = (if truthy_str (b64_json p) then b64_json p else b64 p)
            in if truthy_str b64_data then
                 (case decode_b64 E (the b64_data) of
                    Inr b \<Rightarrow> (Inr (Some b), s)
                  | Inl e \<Rightarrow> (Inl e, s))
               else (Inr None, s)))"

text \<open>
  \<^verbatim>\<open>_extract_bytes_from_parts\<close>: the first truthy result; \<^verbatim>\<open>except Exception: continue\<close>
  around each part.
\<close>

fun extract_bytes_from_parts :: "'w env \<Rightarrow> part list \<Rightarrow> 'w state \<Rightarrow> (exn + bytes option) \<times> 'w state" where
  "extract_bytes_from_parts E [] s = (Inr None, s)"
| "extract_bytes_from_parts E (p # parts) s =
     (case extract_bytes_from_part E p s of
        (Inr data, s') \<Rightarrow>
          if truthy_bytes data then (Inr data, s') else extract_bytes_from_parts E parts s'
      | (Inl e, s') \<Rightarrow> extract_bytes_from_parts E parts s')"

subsection \<open>The fallback call\<close>

text \<open>
  \<^verbatim>\<open>_responses_fallback\<close>: the request with the prompt and the truthy URLs; a
  \<^verbatim>\<open>NotFoundError\<close> becomes \<^verbatim>\<open>ImageGenerationError\<close>, any other exception of the call
  \<^verbatim>\<open>UpstreamUnavailable\<close>; the reply's dump (\<open>None\<close> when it has none) is searched.
\<close>

definition input_images :: "string option \<Rightarrow> input_part list" where
  "input_images url = (if truthy_str url then [InputImage (the url)] else [])"

definition or_empty :: "(string \<times> json) list option \<Rightarrow> (string \<times> json) list" where
  "or_empty extra_body = (case extra_body of None \<Rightarrow> [] | Some d \<Rightarrow> d)"

definition responses_fallback ::
  "'w env \<Rightarrow> string option \<Rightarrow> string \<Rightarrow> string \<Rightarrow> string option \<Rightarrow> string option \<Rightarrow>
   (string \<times> json) list option \<Rightarrow> 'w state \<Rightarrow> (exn + bytes option) \<times> 'w state" where
  "responses_fallback E client model prompt_text initial_url reference_url extra_body s =
     (let request = ResponsesRequest client model
            [InputMessage ''user''
               ([InputText prompt_text] @ input_images initial_url @ input_images reference_url)]
            (or_empty extra_body)
      in case responses_create E request (world s) of
           (outcome, w) \<Rightarrow>
             (let s' = \<lparr> world = w, calls = calls s @ [ResponsesCreate request] \<rparr>
              in case outcome of
                   NotFoundError m \<Rightarrow>
                     (Inl (ImageGenerationError ''Model not available for image output''), s')
                 | OtherError m \<Rightarrow>
                     (Inl (UpstreamUnavailable ''OpenRouter responses call failed''), s')
                 | Returned data2 \<Rightarrow>
                     (case data2 of
                        None \<Rightarrow> (Inr None, s')
                      | Some d \<Rightarrow>
                          (case deep_find_image_payload E d s' of
                             (found, s'') \<Rightarrow> (Inr found, s'')))))"

subsection \<open>One attempt\<close>

definition request_headers :: "string option \<Rightarrow> string option \<Rightarrow> (string \<times> string) list option" where
  "request_headers http_referer x_title =
     (let headers = [];
          headers = (if truthy_str http_referer
                     then headers @ [(''HTTP-Referer'', the http_referer)] else headers);
          headers = (if truthy_str x_title
                     then headers @ [(''X-Title'', the x_title)] else headers)
      in if headers = [] then None else Some headers)"

text \<open>
  \<^verbatim>\<open>_sync_request_and_extract_bytes\<close>, the closure inside \<^verbatim>\<open>generate_image\<close>, with
  the variables it closes over as arguments.
\<close>

definition sync_request_and_extract_bytes ::
  "'w env \<Rightarrow> string option \<Rightarrow> message list \<Rightarrow> string \<Rightarrow> string option \<Rightarrow> string option \<Rightarrow>
   string \<Rightarrow> string option \<Rightarrow> string option \<Rightarrow> (string \<times> json) list option \<Rightarrow>
   'w state \<Rightarrow> (exn + bytes) \<times> 'w state" where
  "sync_request_and_extract_bytes E key messages prompt_text initial_url reference_url
       model http_referer x_title extra_body s =
     (let request = ChatRequest key model messages (request_headers http_referer x_title)
                      (or_empty extra_body)
      in case chat_completions_create E request (world s) of
           (outcome, w) \<Rightarrow>
             (let s1 = \<lparr> world = w, calls = calls s @ [ChatCompletionsCreate request] \<rparr>
              in case outcome of
                   NotFoundError m \<Rightarrow>
                     (Inl (ImageGenerationError
                             ''Model not available. Check model name or your access.''), s1)
                 | OtherError m \<Rightarrow> (Inl (UpstreamUnavailable ''OpenRouter request failed''), s1)
                 | Returned (ChatCompletion choices) \<Rightarrow>
                     (case choices of
                        [] \<Rightarrow>
                          (Inl (ImageGenerationError
                                  ''Malformed response from upstream: missing message content''), s1)
                      | content # other_choices \<Rightarrow>
                          (case content of
                             ContentStr text \<Rightarrow>
                               (case extract_url_from_text text of
                                  None \<Rightarrow>
                                    (Inl (ImageGenerationError
                                       ''Upstream returned text content without an image URL''), s1)
                                | Some url \<Rightarrow> fetch_bytes_from_url E (utf8_encode url) s1)
                           | _ \<Rightarrow>
                               (case (case content of
                                        ContentList parts \<Rightarrow> extract_bytes_from_parts E parts s1
                                      | _ \<Rightarrow> (Inr None, s1)) of
                                  (Inl e, s2) \<Rightarrow> (Inl e, s2)
                                | (Inr found, s2) \<Rightarrow>
                                    if truthy_bytes found then (Inr (the found), s2)
                                    else
                                      (case responses_fallback E key model prompt_text
                                              initial_url reference_url extra_body s2 of
                                         (Inl e, s3) \<Rightarrow> (Inl e, s3)
                                       | (Inr found2, s3) \<Rightarrow>
                                           if truthy_bytes found2 then (Inr (the found2), s3)
                                           else (Inl (ImageGenerationError
                                                  ''Upstream did not include an image payload''),
                                                 s3)))))))"

subsection \<open>The retry wrapper\<close>

text \<open>
  tenacity's loop for \<^verbatim>\<open>@retry(stop=stop_after_attempt(3), wait=..., retry=
  retry_if_exception_type(UpstreamUnavailable))\<close>: an attempt that returns, or raises what
  the retry condition does not match, ends the call with that outcome; a matched failure
  of an attempt whose number has reached the stop raises \<^verbatim>\<open>RetryError\<close> around it
  (\<^verbatim>\<open>reraise\<close> is left at its default \<^verbatim>\<open>False\<close>); otherwise the loop sleeps and
  attempts again. The result carries the number of attempts made. The sleep changes
  nothing of this state.
\<close>

fun is_UpstreamUnavailable :: "exn \<Rightarrow> bool" where
  "is_UpstreamUnavailable (UpstreamUnavailable m) = True"
| "is_UpstreamUnavailable e = False"

function retrying ::
  "nat \<Rightarrow> nat \<Rightarrow> ('s \<Rightarrow> (exn + 'a) \<times> 's) \<Rightarrow> 's \<Rightarrow> ((exn + 'a) \<times> nat) \<times> 's" where
  "retrying max_attempt_number attempt_number fn s =
     (case fn s of
        (Inr v, s') \<Rightarrow> ((Inr v, attempt_number), s')
      | (Inl e, s') \<Rightarrow>
          if \<not> is_UpstreamUnavailable e then ((Inl e, attempt_number), s')
          else if attempt_number \<ge> max_attempt_number
          then ((Inl (RetryError e), attempt_number), s')
          else retrying max_attempt_number (attempt_number + 1) fn s')"
  by pat_completeness auto
termination
  by (relation "measure (\<lambda>(max_attempt_number, attempt_number, fn, s).
                  max_attempt_number - attempt_number)") auto

declare retrying.simps [simp del]

text \<open>\<^verbatim>\<open>key = api_key or settings.OPENROUTER_API_KEY\<close>.\<close>

definition resolve_key :: "'w env \<Rightarrow> string option \<Rightarrow> string option" where
  "resolve_key E api_key = (if truthy_str api_key then api_key else OPENROUTER_API_KEY E)"

text \<open>The body of the coroutine \<^verbatim>\<open>generate_image\<close>, which every attempt runs.\<close>

definition generate_image_body ::
  "'w env \<Rightarrow> string \<Rightarrow> string option \<Rightarrow> string option \<Rightarrow> string option \<Rightarrow> string \<Rightarrow>
   string option \<Rightarrow> string option \<Rightarrow> (string \<times> json) list option \<Rightarrow>
   'w state \<Rightarrow> (exn + bytes) \<times> 'w state" where
  "generate_image_body E prompt_text initial_url reference_url api_key model http_referer x_title
       extra_body s =
     (let key = resolve_key E api_key;
          messages = build_messages prompt_text initial_url reference_url
      in sync_request_and_extract_bytes E key messages prompt_text initial_url reference_url
           model http_referer x_title extra_body s)"

text \<open>\<^verbatim>\<open>generate_image\<close> as decorated: the outcome and the number of attempts made.\<close>

definition generate_image ::
  "'w env \<Rightarrow> string \<Rightarrow> string option \<Rightarrow> string option \<Rightarrow> string option \<Rightarrow> string \<Rightarrow>
   string option \<Rightarrow> string option \<Rightarrow> (string \<times> json) list option \<Rightarrow>
   'w state \<Rightarrow> ((exn + bytes) \<times> nat) \<times> 'w state" where
  "generate_image E prompt_text initial_url reference_url api_key model http_referer x_title
       extra_body s =
     retrying 3 1
       (generate_image_body E prompt_text initial_url reference_url api_key model http_referer
          x_title extra_body)
       s"

text \<open>The two requests an attempt of \<^verbatim>\<open>generate_image\<close> can send.\<close>

definition primary_request ::
  "'w env \<Rightarrow> string \<Rightarrow> string option \<Rightarrow> string option \<Rightarrow> string option \<Rightarrow> string \<Rightarrow>
   string option \<Rightarrow> string option \<Rightarrow> (string \<times> json) list option \<Rightarrow> chat_request" where
  "primary_request E prompt_text initial_url reference_url api_key model http_referer x_title
       extra_body =
     ChatRequest (resolve_key E api_key) model
       (build_messages prompt_text initial_url reference_url)
       (request_headers http_referer x_title) (or_empty extra_body)"

definition fallback_request ::
  "'w env \<Rightarrow> string \<Rightarrow> string option \<Rightarrow> string option \<Rightarrow> string option \<Rightarrow> string \<Rightarrow>
   (string \<times> json) list option \<Rightarrow> responses_request" where
  "fallback_request E prompt_text initial_url reference_url api_key model extra_body =
     ResponsesRequest (resolve_key E api_key) model
       [InputMessage ''user''
          ([InputText prompt_text] @ input_images initial_url @ input_images reference_url)]
       (or_empty extra_body)"

section \<open>Concrete scenarios\<close>

text \<open>
  The inputs of the specification's end-to-end example: prompt "swap background", initial
  key "u/1/initial.jpg", no reference; the job in its states and the databases holding it.
\<close>

definition empty_db :: database where
  "empty_db = \<lparr> rows = [], next_id = 1 \<rparr>"

definition swap_background :: JobCreate where
  "swap_background = \<lparr> JobCreate.prompt = ''swap background'',
                        initial_image_key = ''u/1/initial.jpg'',
                        reference_image_key = None \<rparr>"

definition pending_job :: GenerationJob where
  "pending_job = \<lparr> id_col = 1, uuid = 7, prompt = ''swap background'',
                    status = Some PENDING,
                    initial_image_key = ''u/1/initial.jpg'',
                    reference_image_key = None,
                    generated_image_key = None,
                    created_at = 100, updated_at = 100 \<rparr>"

definition pending_db :: database where
  "pending_db = \<lparr> rows = [pending_job], next_id = 2 \<rparr>"

definition finished_job :: GenerationJob where
  "finished_job = \<lparr> id_col = 1, uuid = 7, prompt = ''swap background'',
                     status = Some COMPLETED,
                     initial_image_key = ''u/1/initial.jpg'',
                     reference_image_key = None,
                     generated_image_key = Some ''u/1/generated.png'',
                     created_at = 100, updated_at = 160 \<rparr>"

definition finished_db :: database where
  "finished_db = \<lparr> rows = [finished_job], next_id = 2 \<rparr>"

definition status_only :: "JobStatus option \<Rightarrow> JobUpdate" where
  "status_only s = \<lparr> JobUpdate.status = s, generated_image_key = None,
                     model_fields_set = {''status''} \<rparr>"

definition completed_with_key :: "string \<Rightarrow> JobUpdate" where
  "completed_with_key k = \<lparr> JobUpdate.status = Some COMPLETED, generated_image_key = Some k,
                            model_fields_set = {''status'', ''generated_image_key''} \<rparr>"

definition no_fields :: JobUpdate where
  "no_fields = \<lparr> JobUpdate.status = None, generated_image_key = None, model_fields_set = {} \<rparr>"

text \<open>
  Stubs of the outside world. The decoder agrees with \<^verbatim>\<open>base64.b64decode\<close> on the
  strings the scenarios use; the web serves one image and answers 503, 429 and 404
  elsewhere; the world state counts the chat calls made.
\<close>

definition png_bytes :: bytes where
  "png_bytes = [137, 80, 78, 71]"

definition stub_b64decode :: "string \<Rightarrow> bytes option" where
  "stub_b64decode d = (if d = ''iVBORw=='' then Some png_bytes else None)"

definition stub_requests_get :: "string \<Rightarrow> nat \<Rightarrow> http_outcome \<times> nat" where
  "stub_requests_get url w =
     (if url = ''https://cdn.example/ok.png'' then Response 200 png_bytes
      else if url = ''https://cdn.example/busy.png'' then Response 503 []
      else if url = ''https://cdn.example/limited.png'' then Response 429 []
      else Response 404 [], w)"

definition stub_env ::
  "(nat \<Rightarrow> chat_completion api_outcome) \<Rightarrow> json option api_outcome \<Rightarrow> nat env" where
  "stub_env chat_reply responses_reply =
     \<lparr> chat_completions_create = (\<lambda>request w. (chat_reply w, w + 1)),
       responses_create = (\<lambda>request w. (responses_reply, w)),
       requests_get = stub_requests_get,
       b64decode = stub_b64decode,
       OPENROUTER_API_KEY = Some ''sk-test'' \<rparr>"

definition start :: "nat state" where
  "start = \<lparr> world = 0, calls = [] \<rparr>"

definition image_data :: json where
  "image_data = JDict [(''output'', JList [JDict [(''type'', JStr ''image''),
                                                  (''b64_json'', JStr ''iVBORw=='')]])]"

definition url_part :: "string \<Rightarrow> part" where
  "url_part u = \<lparr> ptype = Some ''image_url'', image_url = Some (UrlContainer (Some u)),
                  b64_json = None, b64 = None \<rparr>"

definition b64_part :: "string \<Rightarrow> part" where
  "b64_part d = \<lparr> ptype = Some ''output_image'', image_url = None,
                  b64_json = Some d, b64 = None \<rparr>"

definition text_part :: part where
  "text_part = \<lparr> ptype = Some ''text'', image_url = None, b64_json = None, b64 = None \<rparr>"

definition provider_down :: "nat env" where
  "provider_down = stub_env (\<lambda>w. OtherError ''503 Service Unavailable'') (Returned None)"

definition provider_text_only :: "nat env" where
  "provider_text_only =
     stub_env (\<lambda>w. Returned (ChatCompletion [ContentStr (codepoints ''I cannot edit this image.'')]))
       (Returned (Some image_data))"

definition scheme_then_space :: unicode where
  "scheme_then_space = codepoints ''https://'' @ [0xA0] @ codepoints ''x''"

definition provider_scheme_then_space :: "nat env" where
  "provider_scheme_then_space =
     stub_env (\<lambda>w. Returned (ChatCompletion [ContentStr scheme_then_space]))
       (Returned (Some image_data))"

definition provider_parts_only :: "nat env" where
  "provider_parts_only =
     stub_env (\<lambda>w. Returned (ChatCompletion [ContentList [text_part]]))
       (Returned (Some image_data))"

definition provider_nothing :: "nat env" where
  "provider_nothing = stub_env (\<lambda>w. Returned (ChatCompletion [ContentOther])) (Returned None)"

definition provider_recovers :: "nat env" where
  "provider_recovers =
     stub_env (\<lambda>w. if w < 2 then OtherError ''503 Service Unavailable''
                    else Returned (ChatCompletion [ContentList [text_part, b64_part ''iVBORw==''],
                                                   ContentStr (codepoints ''https://cdn.example/ok.png'')]))
       (Returned None)"

definition provider_model_missing :: "nat env" where
  "provider_model_missing =
     stub_env (\<lambda>w. NotFoundError ''model not found'') (Returned (Some image_data))"

definition initial_url_1 :: string where
  "initial_url_1 = ''https://s3.example/u/1/initial.jpg''"

definition reference_url_1 :: string where
  "reference_url_1 = ''https://s3.example/u/1/reference.jpg''"

definition model_1 :: string where
  "model_1 = ''google/gemini-2.5-flash-image-preview:free''"

section \<open>Properties of the job repository\<close>

subsection \<open>Auxiliary facts\<close>

lemma find_append_fresh:
  "\<forall>r \<in> set xs. \<not> P r \<Longrightarrow> P x \<Longrightarrow> find P (xs @ [x]) = Some x"
  by (induction xs) auto

lemma foldl_setattr:
  "foldl (\<lambda>j (field, v). setattr j field v) db_job (model_dump_exclude_unset job_in) =
     db_job\<lparr> status := (if ''status'' \<in> model_fields_set job_in
                          then JobUpdate.status job_in else status db_job),
              generated_image_key := (if ''generated_image_key'' \<in> model_fields_set job_in
                          then JobUpdate.generated_image_key job_in
                          else generated_image_key db_job) \<rparr>"
  by (simp add: model_dump_exclude_unset_def)

lemma commit_update_fields:
  "status (fst (commit_update now db loaded job)) = status job"
  "generated_image_key (fst (commit_update now db loaded job)) = generated_image_key job"
  "id_col (fst (commit_update now db loaded job)) = id_col job"
  "uuid (fst (commit_update now db loaded job)) = uuid job"
  "prompt (fst (commit_update now db loaded job)) = prompt job"
  "initial_image_key (fst (commit_update now db loaded job)) = initial_image_key job"
  "reference_image_key (fst (commit_update now db loaded job)) = reference_image_key job"
  "created_at (fst (commit_update now db loaded job)) = created_at job"
  "fst (commit_update now db loaded loaded) = loaded"
  by (simp_all add: commit_update_def Let_def)

lemma update_job_status_found:
  assumes "get_job_by_uuid db job_uuid = Some job"
  shows "update_job_status db now job_uuid new_status generated_key =
     (Some (fst (commit_update now db job
        (case generated_key of None \<Rightarrow> job\<lparr>status := Some new_status\<rparr>
         | Some k \<Rightarrow> job\<lparr>status := Some new_status, generated_image_key := Some k\<rparr>))),
      snd (commit_update now db job
        (case generated_key of None \<Rightarrow> job\<lparr>status := Some new_status\<rparr>
         | Some k \<Rightarrow> job\<lparr>status := Some new_status, generated_image_key := Some k\<rparr>)))"
  using assms by (simp add: update_job_status_def Let_def split: option.splits prod.splits)

lemma get_finished_job: "get_job_by_uuid finished_db 7 = Some finished_job"
  by (simp add: get_job_by_uuid_def finished_db_def finished_job_def)

lemma job_invariant_commit_update:
  "job_invariant (fst (commit_update now db loaded job)) = job_invariant job"
  by (simp add: job_invariant_def commit_update_fields)

lemma db_invariant_commit_update:
  "db_invariant db \<Longrightarrow> job_invariant job \<Longrightarrow> db_invariant (snd (commit_update now db loaded job))"
  by (auto simp: db_invariant_def commit_update_def Let_def list_all_iff job_invariant_def)

lemma db_invariant_delete_job: "db_invariant db \<Longrightarrow> db_invariant (snd (delete_job db job_uuid))"
  by (simp add: db_invariant_def delete_job_def list_all_iff split: option.splits)

lemma db_invariant_create_job:
  "db_invariant db \<Longrightarrow> create_job db now new_uuid job_in = Inr (job, db') \<Longrightarrow>
     job_invariant job \<and> db_invariant db'"
  by (auto simp: db_invariant_def create_job_def job_invariant_def Let_def split: if_splits)

lemma db_invariant_update_job_status:
  assumes "db_invariant db"
    and "\<And>job. get_job_by_uuid db job_uuid = Some job \<Longrightarrow>
           job_invariant (case generated_key of None \<Rightarrow> job\<lparr>status := Some new_status\<rparr>
             | Some k \<Rightarrow> job\<lparr>status := Some new_status, generated_image_key := Some k\<rparr>)"
  shows "db_invariant (snd (update_job_status db now job_uuid new_status generated_key))"
proof (cases "get_job_by_uuid db job_uuid")
  case None
  then show ?thesis using assms(1) by (simp add: update_job_status_def)
next
  case (Some job)
  show ?thesis
    using db_invariant_commit_update [OF assms(1) assms(2) [OF Some]]
    by (simp add: update_job_status_found [OF Some])
qed

lemma db_invariant_pending_db: "db_invariant pending_db"
  by (simp add: db_invariant_def pending_db_def pending_job_def job_invariant_def)

subsection \<open>Create, then get\<close>

text \<open>
  Claim C8. Creating a job and fetching it by its id at once gives a job that is Pending
  and has no generated image key. The creation succeeds whenever the drawn uuid is held
  by no row; the job fetched is the job created, and it carries the prompt and the keys
  of the input. No condition on the prompt is needed.
\<close>

theorem create_then_get_is_pending:
  assumes "\<not> (\<exists>r \<in> set (rows db). uuid r = new_uuid)"
  shows "\<exists>job db'. create_job db now new_uuid job_in = Inr (job, db')
           \<and> get_job_by_uuid db' (uuid job) = Some job
           \<and> uuid job = new_uuid
           \<and> status job = Some PENDING
           \<and> generated_image_key job = None
           \<and> prompt job = JobCreate.prompt job_in
           \<and> initial_image_key job = JobCreate.initial_image_key job_in
           \<and> reference_image_key job = JobCreate.reference_image_key job_in"
  using assms
  by (simp add: create_job_def get_job_by_uuid_def Let_def find_append_fresh)

theorem create_then_get_is_pending_witness:
  "(\<not> (\<exists>r \<in> set (rows empty_db). uuid r = 7)) \<and>
   (\<exists>job db'. create_job empty_db 100 7 swap_background = Inr (job, db')
           \<and> get_job_by_uuid db' (uuid job) = Some job
           \<and> uuid job = 7
           \<and> status job = Some PENDING
           \<and> generated_image_key job = None
           \<and> prompt job = JobCreate.prompt swap_background
           \<and> initial_image_key job = JobCreate.initial_image_key swap_background
           \<and> reference_image_key job = JobCreate.reference_image_key swap_background)"
proof -
  have fresh: "\<not> (\<exists>r \<in> set (rows empty_db). uuid r = 7)"
    by (simp add: empty_db_def)
  from create_then_get_is_pending [OF fresh, of 100 swap_background] fresh
  show ?thesis by simp
qed

subsection \<open>The partial update\<close>

text \<open>
  Claim C9. \<open>update_job\<close> applies the fields that were explicitly set and no other:
  a field outside \<open>model_fields_set\<close> keeps its value, a field inside it takes the
  given value, and the columns a \<open>JobUpdate\<close> cannot name (id, uuid, prompt, the two
  input keys, \<open>created_at\<close>) never change. With an empty field set the job returned is
  the job passed in, up to \<open>updated_at\<close>.
\<close>

theorem update_job_applies_only_set_fields:
  "(''status'' \<notin> model_fields_set job_in \<longrightarrow>
      status (fst (update_job db now db_job job_in)) = status db_job) \<and>
   (''generated_image_key'' \<notin> model_fields_set job_in \<longrightarrow>
      generated_image_key (fst (update_job db now db_job job_in)) = generated_image_key db_job) \<and>
   (''status'' \<in> model_fields_set job_in \<longrightarrow>
      status (fst (update_job db now db_job job_in)) = JobUpdate.status job_in) \<and>
   (''generated_image_key'' \<in> model_fields_set job_in \<longrightarrow>
      generated_image_key (fst (update_job db now db_job job_in)) =
        JobUpdate.generated_image_key job_in) \<and>
   id_col (fst (update_job db now db_job job_in)) = id_col db_job \<and>
   uuid (fst (update_job db now db_job job_in)) = uuid db_job \<and>
   prompt (fst (update_job db now db_job job_in)) = prompt db_job \<and>
   initial_image_key (fst (update_job db now db_job job_in)) = initial_image_key db_job \<and>
   reference_image_key (fst (update_job db now db_job job_in)) = reference_image_key db_job \<and>
   created_at (fst (update_job db now db_job job_in)) = created_at db_job \<and>
   (model_fields_set job_in = {} \<longrightarrow>
      (fst (update_job db now db_job job_in))\<lparr>updated_at := updated_at db_job\<rparr> = db_job)"
proof -
  let ?job = "foldl (\<lambda>j (field, v). setattr j field v) db_job (model_dump_exclude_unset job_in)"
  have result: "fst (update_job db now db_job job_in) = fst (commit_update now db db_job ?job)"
    by (simp add: update_job_def Let_def)
  have untouched: "?job = db_job" if "model_fields_set job_in = {}"
    using that by (simp add: foldl_setattr)
  have empty: "(fst (update_job db now db_job job_in))\<lparr>updated_at := updated_at db_job\<rparr> = db_job"
    if "model_fields_set job_in = {}"
    unfolding result untouched [OF that] by (simp add: commit_update_fields)
  show ?thesis
    unfolding result using empty
    by (simp add: foldl_setattr commit_update_fields result)
qed

theorem update_job_applies_only_set_fields_witness:
  "model_fields_set no_fields = {} \<and>
   (fst (update_job finished_db 200 finished_job no_fields))\<lparr>updated_at := 160\<rparr> = finished_job \<and>
   ''status'' \<in> model_fields_set (status_only (Some FAILED)) \<and>
   ''generated_image_key'' \<notin> model_fields_set (status_only (Some FAILED)) \<and>
   status (fst (update_job finished_db 200 finished_job (status_only (Some FAILED)))) = Some FAILED \<and>
   generated_image_key (fst (update_job finished_db 200 finished_job (status_only (Some FAILED)))) =
     Some ''u/1/generated.png''"
proof -
  have e: "model_fields_set no_fields = {}"
    and n: "''status'' \<notin> model_fields_set no_fields"
           "''generated_image_key'' \<notin> model_fields_set no_fields"
    by (simp_all add: no_fields_def)
  have s: "''status'' \<in> model_fields_set (status_only (Some FAILED))"
          "''generated_image_key'' \<notin> model_fields_set (status_only (Some FAILED))"
          "JobUpdate.status (status_only (Some FAILED)) = Some FAILED"
    by (simp_all add: status_only_def)
  have f: "updated_at finished_job = 160"
          "generated_image_key finished_job = Some ''u/1/generated.png''"
    by (simp_all add: finished_job_def)
  from update_job_applies_only_set_fields [of no_fields finished_db 200 finished_job]
       update_job_applies_only_set_fields [of "status_only (Some FAILED)" finished_db 200 finished_job]
       e n s f
  show ?thesis by simp
qed

subsection \<open>The status helper\<close>

text \<open>
  Claim C10. On a job that is found, \<open>update_job_status\<close> sets the status and touches
  nothing else but \<open>updated_at\<close>: id, uuid, prompt, both input keys and
  \<open>created_at\<close> are kept under every status update, and when no generated key is passed
  the stored \<open>generated_image_key\<close> is kept as it is. So marking a job Failed after its
  key was set leaves the key in place.
\<close>

theorem update_job_status_frame:
  assumes "get_job_by_uuid db job_uuid = Some job"
  shows "\<exists>job' db'. update_job_status db now job_uuid new_status generated_key = (Some job', db')
           \<and> status job' = Some new_status
           \<and> (generated_key = None \<longrightarrow> generated_image_key job' = generated_image_key job)
           \<and> id_col job' = id_col job
           \<and> uuid job' = uuid job
           \<and> prompt job' = prompt job
           \<and> initial_image_key job' = initial_image_key job
           \<and> reference_image_key job' = reference_image_key job
           \<and> created_at job' = created_at job"
  unfolding update_job_status_found [OF assms]
  by (cases generated_key) (simp_all add: commit_update_fields)

theorem update_job_status_frame_witness:
  "get_job_by_uuid finished_db 7 = Some finished_job \<and>
   (\<exists>job' db'. update_job_status finished_db 200 7 FAILED None = (Some job', db')
      \<and> status job' = Some FAILED
      \<and> generated_image_key job' = Some ''u/1/generated.png''
      \<and> prompt job' = ''swap background'')"
  using update_job_status_frame [OF get_finished_job, of 200 FAILED None] get_finished_job
  by (auto simp: finished_job_def)

subsection \<open>No transition guard\<close>

text \<open>
  Claim C5 says that Completed and Failed are terminal and that every status change
  follows Pending, Processing, then Completed or Failed. The update operations check no
  transition: here a Completed job is set back to Processing by the status helper.
\<close>

theorem terminal_status_overwritten_counterexample:
  "get_job_by_uuid finished_db 7 = Some finished_job \<and>
   status finished_job = Some COMPLETED \<and>
   fst (update_job_status finished_db 200 7 PROCESSING None) =
     Some (finished_job\<lparr>status := Some PROCESSING, updated_at := 200\<rparr>)"
  by (simp add: get_job_by_uuid_def update_job_status_def commit_update_def
        finished_db_def finished_job_def Let_def)

text \<open>
  Claim C5, amended. The repository's update operations enforce no lifecycle order:
  on a job that is found, the status helper sets the requested status whatever the
  current status is (on an unknown id it returns nothing and changes nothing);
  \<open>update_job\<close> sets the given status whenever status is among the explicitly set
  fields, and keeps the status only when it is not.
\<close>

theorem update_sets_any_requested_status:
  "(get_job_by_uuid db job_uuid = Some job \<longrightarrow>
      (\<exists>job' db'. update_job_status db now job_uuid new_status generated_key = (Some job', db')
         \<and> status job' = Some new_status)) \<and>
   (get_job_by_uuid db job_uuid = None \<longrightarrow>
      update_job_status db now job_uuid new_status generated_key = (None, db)) \<and>
   (''status'' \<in> model_fields_set job_in \<longrightarrow>
      status (fst (update_job db now db_job job_in)) = JobUpdate.status job_in) \<and>
   (''status'' \<notin> model_fields_set job_in \<longrightarrow>
      status (fst (update_job db now db_job job_in)) = status db_job)"
proof -
  have "\<exists>job' db'. update_job_status db now job_uuid new_status generated_key = (Some job', db')
         \<and> status job' = Some new_status"
    if g: "get_job_by_uuid db job_uuid = Some job"
    unfolding update_job_status_found [OF g]
    by (cases generated_key) (simp_all add: commit_update_fields)
  moreover have "update_job_status db now job_uuid new_status generated_key = (None, db)"
    if "get_job_by_uuid db job_uuid = None"
    using that by (simp add: update_job_status_def)
  moreover have "status (fst (update_job db now db_job job_in)) =
      (if ''status'' \<in> model_fields_set job_in then JobUpdate.status job_in else status db_job)"
    by (simp add: update_job_def foldl_setattr commit_update_fields Let_def)
  ultimately show ?thesis by simp
qed

theorem update_sets_any_requested_status_witness:
  "get_job_by_uuid finished_db 7 = Some finished_job \<and>
   status finished_job = Some COMPLETED \<and>
   (\<exists>job' db'. update_job_status finished_db 200 7 FAILED None = (Some job', db')
      \<and> status job' = Some FAILED) \<and>
   get_job_by_uuid finished_db 8 = None \<and>
   update_job_status finished_db 200 8 FAILED None = (None, finished_db) \<and>
   ''status'' \<in> model_fields_set (status_only (Some PENDING)) \<and>
   status (fst (update_job finished_db 200 finished_job (status_only (Some PENDING)))) = Some PENDING \<and>
   ''status'' \<notin> model_fields_set no_fields \<and>
   status (fst (update_job finished_db 200 finished_job no_fields)) = Some COMPLETED"
proof -
  have n: "get_job_by_uuid finished_db 8 = None"
    by (simp add: get_job_by_uuid_def finished_db_def finished_job_def)
  have m: "''status'' \<in> model_fields_set (status_only (Some PENDING))"
          "''status'' \<notin> model_fields_set no_fields"
    by (simp_all add: status_only_def no_fields_def)
  have s: "JobUpdate.status (status_only (Some PENDING)) = Some PENDING"
    by (simp add: status_only_def)
  have c: "status finished_job = Some COMPLETED"
    by (simp add: finished_job_def)
  from update_sets_any_requested_status
         [of finished_db 7 finished_job 200 FAILED None "status_only (Some PENDING)" finished_job]
       update_sets_any_requested_status
         [of finished_db 8 finished_job 200 FAILED None no_fields finished_job]
       get_finished_job n m s c
  show ?thesis by simp
qed

subsection \<open>The invariant between status and generated key\<close>

text \<open>
  Claim C2 says that for every job reachable through the repository operations the status
  is Completed exactly when the generated key is set. The operations do not enforce it:
  creating a job and marking it Completed without a key gives a Completed job whose key
  is unset, and marking a Completed job Failed leaves its key set.
\<close>

theorem invariant_not_enforced_counterexample:
  "create_job empty_db 100 7 swap_background = Inr (pending_job, pending_db) \<and>
   update_job_status pending_db 200 7 COMPLETED None =
     (Some (pending_job\<lparr>status := Some COMPLETED, updated_at := 200\<rparr>),
      \<lparr> rows = [pending_job\<lparr>status := Some COMPLETED, updated_at := 200\<rparr>], next_id = 2 \<rparr>) \<and>
   status (pending_job\<lparr>status := Some COMPLETED, updated_at := 200\<rparr>) = Some COMPLETED \<and>
   generated_image_key (pending_job\<lparr>status := Some COMPLETED, updated_at := 200\<rparr>) = None \<and>
   \<not> job_invariant (pending_job\<lparr>status := Some COMPLETED, updated_at := 200\<rparr>) \<and>
   fst (update_job_status finished_db 200 7 FAILED None) =
     Some (finished_job\<lparr>status := Some FAILED, updated_at := 200\<rparr>) \<and>
   generated_image_key (finished_job\<lparr>status := Some FAILED, updated_at := 200\<rparr>) =
     Some ''u/1/generated.png'' \<and>
   \<not> job_invariant (finished_job\<lparr>status := Some FAILED, updated_at := 200\<rparr>)"
  by (simp add: create_job_def empty_db_def swap_background_def pending_job_def pending_db_def
        update_job_status_def get_job_by_uuid_def commit_update_def job_invariant_def
        finished_db_def finished_job_def Let_def)

text \<open>
  Claim C2, amended. The invariant is kept by the calls that respect it, in a database
  where it holds: a job just created satisfies it (Pending, key unset); delete leaves it
  in place; the status helper keeps it when called with Completed and a key, and when
  called with another status and no key on a job whose key is unset; \<open>update_job\<close>
  keeps it in the database whenever the job it returns satisfies it, which is the case
  when it sets status Completed together with a key. The repository itself does not
  enforce it.
\<close>

theorem invariant_kept_by_disciplined_calls:
  assumes "db_invariant db"
  shows "(create_job db now new_uuid job_in = Inr (job, db') \<longrightarrow>
            job_invariant job \<and> db_invariant db') \<and>
         db_invariant (snd (delete_job db job_uuid)) \<and>
         db_invariant (snd (update_job_status db now job_uuid COMPLETED (Some k))) \<and>
         (new_status \<noteq> COMPLETED \<and>
          (\<forall>j. get_job_by_uuid db job_uuid = Some j \<longrightarrow> generated_image_key j = None) \<longrightarrow>
            db_invariant (snd (update_job_status db now job_uuid new_status None))) \<and>
         (job_invariant (fst (update_job db now db_job upd)) \<longrightarrow>
            db_invariant (snd (update_job db now db_job upd))) \<and>
         (''status'' \<in> model_fields_set upd \<and> JobUpdate.status upd = Some COMPLETED \<and>
          ''generated_image_key'' \<in> model_fields_set upd \<and>
          JobUpdate.generated_image_key upd \<noteq> None \<longrightarrow>
            job_invariant (fst (update_job db now db_job upd)))"
proof -
  have a: "create_job db now new_uuid job_in = Inr (job, db') \<longrightarrow>
            job_invariant job \<and> db_invariant db'"
    using db_invariant_create_job [OF assms] by blast
  have b: "db_invariant (snd (delete_job db job_uuid))"
    by (rule db_invariant_delete_job [OF assms])
  have c: "db_invariant (snd (update_job_status db now job_uuid COMPLETED (Some k)))"
    by (rule db_invariant_update_job_status [OF assms]) (simp add: job_invariant_def)
  have d: "db_invariant (snd (update_job_status db now job_uuid new_status None))"
    if "new_status \<noteq> COMPLETED"
      and "\<forall>j. get_job_by_uuid db job_uuid = Some j \<longrightarrow> generated_image_key j = None"
    by (rule db_invariant_update_job_status [OF assms]) (use that in \<open>simp add: job_invariant_def\<close>)
  have e: "db_invariant (snd (update_job db now db_job upd))"
    if "job_invariant (fst (update_job db now db_job upd))"
    using that db_invariant_commit_update [OF assms]
    by (simp add: update_job_def Let_def job_invariant_commit_update)
  have f: "job_invariant (fst (update_job db now db_job upd))"
    if "''status'' \<in> model_fields_set upd" "JobUpdate.status upd = Some COMPLETED"
       "''generated_image_key'' \<in> model_fields_set upd"
       "JobUpdate.generated_image_key upd \<noteq> None"
    using that
    by (simp add: update_job_def foldl_setattr commit_update_fields job_invariant_def Let_def)
  from a b c d e f show ?thesis by blast
qed

theorem invariant_kept_by_disciplined_calls_witness:
  "db_invariant pending_db \<and>
   create_job pending_db 200 8 swap_background =
     Inr (projr (create_job pending_db 200 8 swap_background)) \<and>
   job_invariant (fst (projr (create_job pending_db 200 8 swap_background))) \<and>
   db_invariant (snd (projr (create_job pending_db 200 8 swap_background))) \<and>
   db_invariant (snd (delete_job pending_db 7)) \<and>
   db_invariant (snd (update_job_status pending_db 200 7 COMPLETED (Some ''u/1/generated.png''))) \<and>
   db_invariant (snd (update_job_status pending_db 200 7 FAILED None)) \<and>
   job_invariant (fst (update_job pending_db 200 pending_job (completed_with_key ''u/1/generated.png''))) \<and>
   db_invariant (snd (update_job pending_db 200 pending_job (completed_with_key ''u/1/generated.png'')))"
proof -
  have c: "create_job pending_db 200 8 swap_background =
     Inr (fst (projr (create_job pending_db 200 8 swap_background)),
          snd (projr (create_job pending_db 200 8 swap_background)))"
    by (simp add: create_job_def pending_db_def pending_job_def Let_def)
  have g: "\<forall>j. get_job_by_uuid pending_db 7 = Some j \<longrightarrow> generated_image_key j = None"
    by (simp add: get_job_by_uuid_def pending_db_def pending_job_def)
  have u: "''status'' \<in> model_fields_set (completed_with_key ''u/1/generated.png'')"
          "JobUpdate.status (completed_with_key ''u/1/generated.png'') = Some COMPLETED"
          "''generated_image_key'' \<in> model_fields_set (completed_with_key ''u/1/generated.png'')"
          "JobUpdate.generated_image_key (completed_with_key ''u/1/generated.png'') \<noteq> None"
    by (simp_all add: completed_with_key_def)
  have f: "FAILED \<noteq> COMPLETED" by simp
  from invariant_kept_by_disciplined_calls [OF db_invariant_pending_db,
         of 200 8 swap_background
            "fst (projr (create_job pending_db 200 8 swap_background))"
            "snd (projr (create_job pending_db 200 8 swap_background))"
            7 "''u/1/generated.png''" FAILED pending_job
            "completed_with_key ''u/1/generated.png''"]
       c g u f db_invariant_pending_db
  show ?thesis by simp
qed

section \<open>Properties of the upstream image client\<close>

subsection \<open>Auxiliary facts\<close>

lemmas scenario_defs =
  stub_env_def stub_requests_get_def stub_b64decode_def start_def png_bytes_def image_data_def
  url_part_def b64_part_def text_part_def initial_url_1_def model_1_def

lemmas client_defs =
  generate_image_def generate_image_body_def sync_request_and_extract_bytes_def
  responses_fallback_def extract_bytes_from_part_def fetch_bytes_from_url_def decode_b64_def
  resolve_key_def build_messages_def request_headers_def or_empty_def input_images_def
  truthy_str_def truthy_bytes_def dict_get_def primary_request_def fallback_request_def

lemma no_url_in_refusal:
  "extract_url_from_text (codepoints ''I cannot edit this image.'') = None"
  by (simp add: codepoints_def match_url_at_def)

text \<open>
  The search on texts with whitespace beyond ASCII: a no-break space right after the
  scheme leaves no match, a no-break space or an ideographic space ends the URL, a
  zero-width space does not, and a scheme with nothing after it is passed over.
\<close>

lemma extract_url_from_text_examples:
  "extract_url_from_text scheme_then_space = None"
  "extract_url_from_text (codepoints ''https://a'' @ [0xA0] @ codepoints ''b'') =
     Some (codepoints ''https://a'')"
  "extract_url_from_text (codepoints ''see http://a.b/c'' @ [0x3000] @ codepoints ''d'') =
     Some (codepoints ''http://a.b/c'')"
  "extract_url_from_text (codepoints ''https://a'' @ [0x200B] @ codepoints ''b'') =
     Some (codepoints ''https://a'' @ [0x200B] @ codepoints ''b'')"
  "extract_url_from_text (codepoints ''see http:// or https://a.b/c.png now'') =
     Some (codepoints ''https://a.b/c.png'')"
  by (simp_all add: scheme_then_space_def codepoints_def match_url_at_def is_space_def)

text \<open>
  A reply whose text is a scheme, a no-break space and a letter holds no URL: the call
  fails at once, with one chat request and no fetch.
\<close>

lemma generate_image_scheme_then_space:
  "generate_image provider_scheme_then_space ''swap background'' (Some initial_url_1) None None
     model_1 None None None start =
   ((Inl (ImageGenerationError ''Upstream returned text content without an image URL''), 1),
    \<lparr> world = 1,
      calls = [ChatCompletionsCreate
                 (ChatRequest (Some ''sk-test'') model_1
                    [Message ''user'' [TextPart ''swap background'', ImageUrlPart initial_url_1]]
                    None [])] \<rparr>)"
  by (simp add: provider_scheme_then_space_def client_defs scenario_defs retrying.simps
        extract_url_from_text_examples Let_def)

text \<open>An ASCII text is its own encoding; other code points take two to four bytes.\<close>

lemma utf8_encode_ascii:
  "\<forall>c \<in> set t. (of_char c :: nat) < 128 \<Longrightarrow> utf8_encode (codepoints t) = t"
  by (induction t) (simp_all add: utf8_encode_def utf8_encode_code_point_def codepoints_def)

lemma utf8_encode_examples:
  "utf8_encode (codepoints ''https://a.b/c.png'') = ''https://a.b/c.png''"
  "utf8_encode [0xE9] = [char_of (0xC3 :: nat), char_of (0xA9 :: nat)]"
  "utf8_encode [0x3000] = [char_of (0xE3 :: nat), char_of (0x80 :: nat), char_of (0x80 :: nat)]"
  by (simp_all add: utf8_encode_ascii) (simp_all add: utf8_encode_def utf8_encode_code_point_def)

lemma stub_get:
  "requests_get provider_down ''https://cdn.example/busy.png'' (world start) = (Response 503 [], 0)"
  "requests_get provider_down ''https://cdn.example/limited.png'' (world start) = (Response 429 [], 0)"
  "requests_get provider_down ''https://cdn.example/gone.png'' (world start) = (Response 404 [], 0)"
  "requests_get provider_down ''https://cdn.example/ok.png'' (world start) = (Response 200 png_bytes, 0)"
  by (simp_all add: provider_down_def stub_env_def stub_requests_get_def start_def)

lemma str_int_examples:
  "str_int 503 = ''503''" "str_int 429 = ''429''" "str_int 404 = ''404''"
  by (simp_all add: str_int_def str_nat.simps)

lemma fetch_bytes_from_url_calls:
  "calls (snd (fetch_bytes_from_url E url s)) = calls s @ [RequestsGet url]"
  by (cases "requests_get E url (world s)")
     (auto simp: fetch_bytes_from_url_def Let_def split: http_outcome.splits)

lemma fetch_bytes_from_url_calls_eq:
  "fetch_bytes_from_url E url s = (r, s') \<Longrightarrow> calls s' = calls s @ [RequestsGet url]"
  using fetch_bytes_from_url_calls [of E url s] by simp

lemma deep_find_calls:
  "\<exists>cs. calls (snd (deep_find_image_payload E j s)) = calls s @ cs"
  "\<exists>cs. calls (snd (deep_find_in_items E kvs s)) = calls s @ cs"
  "\<exists>cs. calls (snd (deep_find_in_list E vs s)) = calls s @ cs"
proof (induction E j s and E kvs s and E vs s
        rule: deep_find_image_payload_deep_find_in_items_deep_find_in_list.induct)
  case (1 E obj s)
  then show ?case
    by (auto split: json.splits sum.splits prod.splits dest: fetch_bytes_from_url_calls_eq)
next
  case (8 E k v kvs s)
  obtain found s' where d: "deep_find_image_payload E v s = (found, s')"
    by (cases "deep_find_image_payload E v s")
  from "8.IH"(1) d obtain cs where c1: "calls s' = calls s @ cs" by auto
  show ?case
  proof (cases "truthy_bytes found")
    case True
    with d c1 show ?thesis by simp
  next
    case False
    from "8.IH"(2) [OF d [symmetric] False] obtain cs' where
      "calls (snd (deep_find_in_items E kvs s')) = calls s' @ cs'" by auto
    with d c1 False show ?thesis by simp
  qed
next
  case (10 E v vs s)
  obtain found s' where d: "deep_find_image_payload E v s = (found, s')"
    by (cases "deep_find_image_payload E v s")
  from "10.IH"(1) d obtain cs where c1: "calls s' = calls s @ cs" by auto
  show ?case
  proof (cases "truthy_bytes found")
    case True
    with d c1 show ?thesis by simp
  next
    case False
    from "10.IH"(2) [OF d [symmetric] False] obtain cs' where
      "calls (snd (deep_find_in_list E vs s')) = calls s' @ cs'" by auto
    with d c1 False show ?thesis by simp
  qed
qed simp_all

lemma responses_fallback_calls:
  "\<exists>cs. calls (snd (responses_fallback E client model prompt_text initial_url reference_url
                      extra_body s)) =
         calls s @ ResponsesCreate (ResponsesRequest client model
            [InputMessage ''user''
               ([InputText prompt_text] @ input_images initial_url @ input_images reference_url)]
            (or_empty extra_body)) # cs"
proof -
  let ?request = "ResponsesRequest client model
            [InputMessage ''user''
               ([InputText prompt_text] @ input_images initial_url @ input_images reference_url)]
            (or_empty extra_body)"
  obtain outcome w where r: "responses_create E ?request (world s) = (outcome, w)"
    by (cases "responses_create E ?request (world s)")
  let ?s' = "\<lparr> world = w, calls = calls s @ [ResponsesCreate ?request] \<rparr>"
  show ?thesis
  proof (cases outcome)
    case (Returned data2)
    show ?thesis
    proof (cases data2)
      case None
      with r Returned show ?thesis by (simp add: responses_fallback_def Let_def)
    next
      case (Some d)
      obtain cs where "calls (snd (deep_find_image_payload E d ?s')) = calls ?s' @ cs"
        using deep_find_calls(1) [of E d ?s'] by auto
      with r Returned Some show ?thesis
        by (auto simp: responses_fallback_def Let_def split: prod.splits)
    qed
  next
    case (NotFoundError m)
    with r show ?thesis by (simp add: responses_fallback_def Let_def)
  next
    case (OtherError m)
    with r show ?thesis by (simp add: responses_fallback_def Let_def)
  qed
qed

lemma extract_bytes_from_parts_no_error:
  "\<exists>found. fst (extract_bytes_from_parts E parts s) = Inr found"
proof (induction parts arbitrary: s)
  case Nil
  show ?case by simp
next
  case (Cons p parts)
  obtain r s' where p: "extract_bytes_from_part E p s = (r, s')"
    by (cases "extract_bytes_from_part E p s")
  show ?case
  proof (cases r)
    case (Inl e)
    with p Cons.IH [of s'] show ?thesis by simp
  next
    case (Inr data)
    with p Cons.IH [of s'] show ?thesis by simp
  qed
qed

lemma extract_bytes_from_part_calls:
  "\<exists>cs. calls (snd (extract_bytes_from_part E p s)) = calls s @ cs"
  by (auto simp: extract_bytes_from_part_def Let_def split: prod.splits sum.splits
           dest: fetch_bytes_from_url_calls_eq)

lemma extract_bytes_from_parts_calls:
  "\<exists>cs. calls (snd (extract_bytes_from_parts E parts s)) = calls s @ cs"
proof (induction parts arbitrary: s)
  case Nil
  show ?case by simp
next
  case (Cons p parts)
  obtain r s' where p: "extract_bytes_from_part E p s = (r, s')"
    by (cases "extract_bytes_from_part E p s")
  from extract_bytes_from_part_calls [of E p s] p obtain cs where
    c: "calls s' = calls s @ cs" by auto
  from Cons.IH [of s'] obtain cs' where
    c': "calls (snd (extract_bytes_from_parts E parts s')) = calls s' @ cs'" by auto
  show ?case
    using p c c' by (cases r) auto
qed

lemma sync_request_and_extract_bytes_calls:
  "\<exists>cs. calls (snd (sync_request_and_extract_bytes E key messages prompt_text initial_url
                      reference_url model http_referer x_title extra_body s)) =
         calls s @ ChatCompletionsCreate
           (ChatRequest key model messages (request_headers http_referer x_title)
              (or_empty extra_body)) # cs"
proof -
  let ?request = "ChatRequest key model messages (request_headers http_referer x_title)
                    (or_empty extra_body)"
  obtain outcome w where c: "chat_completions_create E ?request (world s) = (outcome, w)"
    by (cases "chat_completions_create E ?request (world s)")
  let ?s1 = "\<lparr> world = w, calls = calls s @ [ChatCompletionsCreate ?request] \<rparr>"
  have scan: "\<exists>cs. calls (snd (extract_bytes_from_parts E parts ?s1)) = calls ?s1 @ cs" for parts
    by (rule extract_bytes_from_parts_calls)
  have fb: "\<exists>cs. calls (snd (responses_fallback E key model prompt_text initial_url
                      reference_url extra_body s2)) = calls s2 @ cs" for s2
    using responses_fallback_calls [of E key model prompt_text initial_url reference_url
            extra_body s2] by auto
  show ?thesis
  proof (cases outcome)
    case (NotFoundError m)
    with c show ?thesis by (simp add: sync_request_and_extract_bytes_def Let_def)
  next
    case (OtherError m)
    with c show ?thesis by (simp add: sync_request_and_extract_bytes_def Let_def)
  next
    case (Returned completion)
    obtain choices where cc: "completion = ChatCompletion choices" by (cases completion)
    show ?thesis
    proof (cases choices)
      case Nil
      with c Returned cc show ?thesis by (simp add: sync_request_and_extract_bytes_def Let_def)
    next
      case (Cons content other_choices)
      show ?thesis
      proof (cases content)
        case (ContentStr reply_text)
        with c Returned cc Cons show ?thesis
          by (auto simp: sync_request_and_extract_bytes_def Let_def fetch_bytes_from_url_calls
                   split: option.splits)
      next
        case (ContentList parts)
        obtain r s2 where e: "extract_bytes_from_parts E parts ?s1 = (r, s2)"
          by (cases "extract_bytes_from_parts E parts ?s1")
        from scan [of parts] e obtain cs where c2: "calls s2 = calls ?s1 @ cs" by auto
        obtain r3 s3 where f: "responses_fallback E key model prompt_text initial_url
                      reference_url extra_body s2 = (r3, s3)"
          by (cases "responses_fallback E key model prompt_text initial_url
                      reference_url extra_body s2")
        from fb [of s2] f obtain cs' where c3: "calls s3 = calls s2 @ cs'" by auto
        from c Returned cc Cons ContentList e f c2 c3 show ?thesis
          by (auto simp: sync_request_and_extract_bytes_def Let_def split: sum.splits)
      next
        case ContentOther
        obtain r3 s3 where f: "responses_fallback E key model prompt_text initial_url
                      reference_url extra_body ?s1 = (r3, s3)"
          by (cases "responses_fallback E key model prompt_text initial_url
                      reference_url extra_body ?s1")
        from fb [of ?s1] f obtain cs' where c3: "calls s3 = calls ?s1 @ cs'" by auto
        from c Returned cc Cons ContentOther f c3 show ?thesis
          by (auto simp: sync_request_and_extract_bytes_def Let_def split: sum.splits)
      qed
    qed
  qed
qed

lemma sync_after_scan:
  assumes "chat_completions_create E
             (ChatRequest key model messages (request_headers http_referer x_title)
                (or_empty extra_body)) (world s) =
           (Returned (ChatCompletion (content # other_choices)), w)"
    and "content = ContentOther \<and>
           s2 = \<lparr> world = w, calls = calls s @ [ChatCompletionsCreate
                   (ChatRequest key model messages (request_headers http_referer x_title)
                      (or_empty extra_body))] \<rparr> \<or>
         (\<exists>parts found. content = ContentList parts \<and>
            extract_bytes_from_parts E parts
              \<lparr> world = w, calls = calls s @ [ChatCompletionsCreate
                   (ChatRequest key model messages (request_headers http_referer x_title)
                      (or_empty extra_body))] \<rparr> = (Inr found, s2) \<and>
            \<not> truthy_bytes found)"
  shows "sync_request_and_extract_bytes E key messages prompt_text initial_url reference_url
           model http_referer x_title extra_body s =
         (case responses_fallback E key model prompt_text initial_url reference_url extra_body s2 of
            (Inl e, s3) \<Rightarrow> (Inl e, s3)
          | (Inr found2, s3) \<Rightarrow>
              if truthy_bytes found2 then (Inr (the found2), s3)
              else (Inl (ImageGenerationError ''Upstream did not include an image payload''), s3))"
  using assms
  by (auto simp: sync_request_and_extract_bytes_def Let_def truthy_bytes_def)

lemma busy_part:
  "fst (extract_bytes_from_part provider_down (url_part ''https://cdn.example/busy.png'') start) =
     Inl (UpstreamUnavailable ''Upstream URL fetch failed: 503'')"
  "snd (extract_bytes_from_part provider_down (url_part ''https://cdn.example/busy.png'') start) =
     \<lparr> world = 0, calls = [RequestsGet ''https://cdn.example/busy.png''] \<rparr>"
  by (simp_all add: extract_bytes_from_part_def url_part_def truthy_str_def fetch_bytes_from_url_def
        stub_get str_int_examples Let_def, simp_all add: start_def)

lemma b64_part_after_busy:
  "extract_bytes_from_part provider_down (b64_part ''iVBORw=='') s = (Inr (Some png_bytes), s)"
  by (simp add: extract_bytes_from_part_def b64_part_def truthy_str_def decode_b64_def
        provider_down_def stub_env_def stub_b64decode_def Let_def)

subsection \<open>The retry loop\<close>

lemma retrying_returns:
  "fn s = (Inr v, s') \<Longrightarrow> retrying max_n n fn s = ((Inr v, n), s')"
  by (simp add: retrying.simps)

lemma retrying_not_matched:
  "fn s = (Inl e, s') \<Longrightarrow> \<not> is_UpstreamUnavailable e \<Longrightarrow> retrying max_n n fn s = ((Inl e, n), s')"
  by (simp add: retrying.simps)

lemma retrying_exhausted:
  "fn s = (Inl e, s') \<Longrightarrow> is_UpstreamUnavailable e \<Longrightarrow> max_n \<le> n \<Longrightarrow>
     retrying max_n n fn s = ((Inl (RetryError e), n), s')"
  by (simp add: retrying.simps)

lemma retrying_again:
  "fn s = (Inl e, s') \<Longrightarrow> is_UpstreamUnavailable e \<Longrightarrow> n < max_n \<Longrightarrow>
     retrying max_n n fn s = retrying max_n (n + 1) fn s'"
  by (subst retrying.simps) simp

lemma retrying_attempts_bounded:
  "n \<le> snd (fst (retrying max_n n fn s)) \<and> snd (fst (retrying max_n n fn s)) \<le> max max_n n"
proof (induction max_n n fn s rule: retrying.induct)
  case (1 max_n n fn s)
  obtain r s' where f: "fn s = (r, s')" by (cases "fn s")
  show ?case
  proof (cases r)
    case (Inr v)
    with f show ?thesis by (simp add: retrying_returns)
  next
    case (Inl e)
    show ?thesis
    proof (cases "is_UpstreamUnavailable e")
      case False
      with f Inl show ?thesis by (simp add: retrying_not_matched)
    next
      case True
      show ?thesis
      proof (cases "max_n \<le> n")
        case True
        with f Inl \<open>is_UpstreamUnavailable e\<close> show ?thesis by (simp add: retrying_exhausted)
      next
        case False
        then have lt: "n < max_n" by simp
        have "retrying max_n n fn s = retrying max_n (n + 1) fn s'"
          using f Inl True lt by (simp add: retrying_again)
        moreover have "n + 1 \<le> snd (fst (retrying max_n (n + 1) fn s')) \<and>
            snd (fst (retrying max_n (n + 1) fn s')) \<le> max max_n (n + 1)"
          using "1.IH" f Inl True False by simp
        ultimately show ?thesis using lt by simp
      qed
    qed
  qed
qed

lemma retrying_never_surfaces_UpstreamUnavailable:
  "fst (fst (retrying max_n n fn s)) \<noteq> Inl (UpstreamUnavailable m)"
proof (induction max_n n fn s rule: retrying.induct)
  case (1 max_n n fn s)
  obtain r s' where f: "fn s = (r, s')" by (cases "fn s")
  show ?case
  proof (cases r)
    case (Inr v)
    with f show ?thesis by (simp add: retrying_returns)
  next
    case (Inl e)
    show ?thesis
    proof (cases "is_UpstreamUnavailable e")
      case False
      with f Inl show ?thesis by (auto simp: retrying_not_matched)
    next
      case True
      show ?thesis
      proof (cases "max_n \<le> n")
        case True
        with f Inl \<open>is_UpstreamUnavailable e\<close> show ?thesis by (simp add: retrying_exhausted)
      next
        case False
        then have lt: "n < max_n" by simp
        have "retrying max_n n fn s = retrying max_n (n + 1) fn s'"
          using f Inl True lt by (simp add: retrying_again)
        moreover have "fst (fst (retrying max_n (n + 1) fn s')) \<noteq> Inl (UpstreamUnavailable m)"
          using "1.IH" f Inl True False by simp
        ultimately show ?thesis by simp
      qed
    qed
  qed
qed

lemma generate_image_first_attempt_final:
  assumes "\<And>m. fst (generate_image_body E prompt_text initial_url reference_url api_key model
                     http_referer x_title extra_body s) \<noteq> Inl (UpstreamUnavailable m)"
  shows "generate_image E prompt_text initial_url reference_url api_key model http_referer x_title
           extra_body s =
         ((fst (generate_image_body E prompt_text initial_url reference_url api_key model
                  http_referer x_title extra_body s), 1),
          snd (generate_image_body E prompt_text initial_url reference_url api_key model
                 http_referer x_title extra_body s))"
proof -
  let ?fn = "generate_image_body E prompt_text initial_url reference_url api_key model
               http_referer x_title extra_body"
  obtain r s' where f: "?fn s = (r, s')" by (cases "?fn s")
  show ?thesis
  proof (cases r)
    case (Inr v)
    with f show ?thesis by (simp add: generate_image_def retrying_returns)
  next
    case (Inl e)
    with assms f have "\<not> is_UpstreamUnavailable e" by (cases e) auto
    with f Inl show ?thesis by (simp add: generate_image_def retrying_not_matched)
  qed
qed

text \<open>
  What holds of the retry policy on every call: between one and three attempts are made;
  an attempt that fails with \<open>ImageGenerationError\<close> ends the call with that failure
  and no further attempt; an attempt that fails with \<open>UpstreamUnavailable\<close> before
  the third is followed by another; and \<open>UpstreamUnavailable\<close> itself never leaves
  \<open>generate_image\<close>: three such failures surface as \<open>RetryError\<close> around the last.
\<close>

lemma generate_image_attempts_bounded:
  "1 \<le> snd (fst (generate_image E prompt_text initial_url reference_url api_key model
                     http_referer x_title extra_body s)) \<and>
   snd (fst (generate_image E prompt_text initial_url reference_url api_key model
               http_referer x_title extra_body s)) \<le> 3"
  using retrying_attempts_bounded
          [of 1 3 "generate_image_body E prompt_text initial_url reference_url api_key model
                     http_referer x_title extra_body" s]
  by (simp add: generate_image_def)

lemma generate_image_no_retry_on_ImageGenerationError:
  "generate_image_body E prompt_text initial_url reference_url api_key model http_referer x_title
     extra_body s = (Inl (ImageGenerationError m), s') \<Longrightarrow>
   generate_image E prompt_text initial_url reference_url api_key model http_referer x_title
     extra_body s = ((Inl (ImageGenerationError m), 1), s')"
  by (simp add: generate_image_def retrying_not_matched)

lemma generate_image_retries_UpstreamUnavailable:
  assumes "generate_image_body E prompt_text initial_url reference_url api_key model http_referer
             x_title extra_body s = (Inl (UpstreamUnavailable m), s')"
  shows "generate_image E prompt_text initial_url reference_url api_key model http_referer x_title
           extra_body s =
         retrying 3 2 (generate_image_body E prompt_text initial_url reference_url api_key model
                         http_referer x_title extra_body) s'"
proof -
  let ?fn = "generate_image_body E prompt_text initial_url reference_url api_key model
               http_referer x_title extra_body"
  have "retrying 3 1 ?fn s = retrying 3 (1 + 1) ?fn s'"
    by (rule retrying_again [of ?fn s "UpstreamUnavailable m" s' 1 3]) (simp_all add: assms)
  moreover have "(1::nat) + 1 = 2" by simp
  ultimately show ?thesis unfolding generate_image_def by (simp only:)
qed

lemma generate_image_three_failures:
  assumes "generate_image_body E prompt_text initial_url reference_url api_key model http_referer
             x_title extra_body s = (Inl (UpstreamUnavailable m1), s1)"
    and "generate_image_body E prompt_text initial_url reference_url api_key model http_referer
             x_title extra_body s1 = (Inl (UpstreamUnavailable m2), s2)"
    and "generate_image_body E prompt_text initial_url reference_url api_key model http_referer
             x_title extra_body s2 = (Inl (UpstreamUnavailable m3), s3)"
  shows "generate_image E prompt_text initial_url reference_url api_key model http_referer x_title
           extra_body s = ((Inl (RetryError (UpstreamUnavailable m3)), 3), s3)"
proof -
  let ?fn = "generate_image_body E prompt_text initial_url reference_url api_key model
               http_referer x_title extra_body"
  have a: "retrying 3 1 ?fn s = retrying 3 (1 + 1) ?fn s1"
    by (rule retrying_again [of ?fn s "UpstreamUnavailable m1" s1 1 3]) (simp_all add: assms)
  have b: "retrying 3 (1 + 1) ?fn s1 = retrying 3 (1 + 1 + 1) ?fn s2"
    by (rule retrying_again [of ?fn s1 "UpstreamUnavailable m2" s2 "1 + 1" 3])
       (simp_all add: assms)
  have c: "retrying 3 (1 + 1 + 1) ?fn s2 =
             ((Inl (RetryError (UpstreamUnavailable m3)), 1 + 1 + 1), s3)"
    by (rule retrying_exhausted [of ?fn s2 "UpstreamUnavailable m3" s3 3 "1 + 1 + 1"])
       (simp_all add: assms)
  have "(1::nat) + 1 + 1 = 3" by simp
  with a b c show ?thesis unfolding generate_image_def by (simp only:)
qed

lemma generate_image_never_raises_UpstreamUnavailable:
  "fst (fst (generate_image E prompt_text initial_url reference_url api_key model http_referer
               x_title extra_body s)) \<noteq> Inl (UpstreamUnavailable m)"
  by (simp add: generate_image_def retrying_never_surfaces_UpstreamUnavailable)

text \<open>The two retry scenarios of the specification's testable properties.\<close>

lemma generate_image_recovers_on_third_attempt:
  "fst (generate_image provider_recovers ''swap background'' (Some initial_url_1) None None model_1
     None None None start) = (Inr png_bytes, 3)"
  by (simp add: provider_recovers_def client_defs scenario_defs retrying.simps Let_def)

lemma generate_image_model_missing_one_attempt:
  "fst (generate_image provider_model_missing ''swap background'' (Some initial_url_1) None None
     model_1 None None None start) =
   (Inl (ImageGenerationError ''Model not available. Check model name or your access.''), 1)"
  by (simp add: provider_model_missing_def client_defs scenario_defs retrying.simps Let_def)

text \<open>
  Claim C1 says that when all three attempts fail with the transient failure, the failure
  surfaced is the last transient failure itself. With the provider down on every call, the
  third failure ends the call with \<open>RetryError\<close> wrapped around it, after three chat
  requests.
\<close>

theorem generate_image_exhausted_raises_RetryError:
  "generate_image provider_down ''swap background'' (Some initial_url_1) None None model_1
     None None None start =
   ((Inl (RetryError (UpstreamUnavailable ''OpenRouter request failed'')), 3),
    \<lparr> world = 3,
      calls = replicate 3 (ChatCompletionsCreate
                 (ChatRequest (Some ''sk-test'') model_1
                    [Message ''user'' [TextPart ''swap background'', ImageUrlPart initial_url_1]]
                    None [])) \<rparr>)"
  by (simp add: provider_down_def client_defs scenario_defs retrying.simps Let_def
        numeral_3_eq_3)

subsection \<open>Fetching a URL\<close>

text \<open>
  Claim C6. For a URL fetch that gets a response: status 429 and every status from 500 to
  599 fail with \<open>UpstreamUnavailable\<close>; every other status from 400 up fails with
  \<open>ImageGenerationError\<close>; every status below 400 returns the body of the response.
  The fetch is recorded as one request in every case.
\<close>

theorem fetch_bytes_from_url_classifies:
  assumes "requests_get E url (world s) = (Response status_code body, w)"
  shows "(status_code = 429 \<or> (500 \<le> status_code \<and> status_code < 600) \<longrightarrow>
            fst (fetch_bytes_from_url E url s) =
              Inl (UpstreamUnavailable (''Upstream URL fetch failed: '' @ str_int status_code))) \<and>
         (400 \<le> status_code \<and> status_code \<noteq> 429 \<and> \<not> (500 \<le> status_code \<and> status_code < 600) \<longrightarrow>
            fst (fetch_bytes_from_url E url s) =
              Inl (ImageGenerationError (''Failed to fetch image URL: '' @ str_int status_code))) \<and>
         (status_code < 400 \<longrightarrow> fst (fetch_bytes_from_url E url s) = Inr body) \<and>
         snd (fetch_bytes_from_url E url s) = \<lparr> world = w, calls = calls s @ [RequestsGet url] \<rparr>"
  using assms by (auto simp: fetch_bytes_from_url_def Let_def)

theorem fetch_bytes_from_url_classifies_witness:
  "fst (fetch_bytes_from_url provider_down ''https://cdn.example/busy.png'' start) =
     Inl (UpstreamUnavailable ''Upstream URL fetch failed: 503'') \<and>
   fst (fetch_bytes_from_url provider_down ''https://cdn.example/limited.png'' start) =
     Inl (UpstreamUnavailable ''Upstream URL fetch failed: 429'') \<and>
   fst (fetch_bytes_from_url provider_down ''https://cdn.example/gone.png'' start) =
     Inl (ImageGenerationError ''Failed to fetch image URL: 404'') \<and>
   fst (fetch_bytes_from_url provider_down ''https://cdn.example/ok.png'' start) = Inr png_bytes"
  using fetch_bytes_from_url_classifies [OF stub_get(1)]
        fetch_bytes_from_url_classifies [OF stub_get(2)]
        fetch_bytes_from_url_classifies [OF stub_get(3)]
        fetch_bytes_from_url_classifies [OF stub_get(4)]
  by (simp add: str_int_examples)

subsection \<open>The message of the primary call\<close>

text \<open>
  Claim C7. The messages built are one user message whose content is the text part with
  the prompt, then the image part of the initial URL when it is present, then the image
  part of the reference URL when it is present, and nothing else; the code tests presence
  with \<^verbatim>\<open>if initial_url:\<close>, so an empty string counts as absent, like \<^verbatim>\<open>None\<close>. Every
  attempt of \<open>generate_image\<close> sends these messages first, in its chat request.
\<close>

theorem build_messages_content_order:
  "build_messages prompt_text None None = [Message ''user'' [TextPart prompt_text]] \<and>
   build_messages prompt_text (Some (c # u)) None =
     [Message ''user'' [TextPart prompt_text, ImageUrlPart (c # u)]] \<and>
   build_messages prompt_text None (Some (d # v)) =
     [Message ''user'' [TextPart prompt_text, ImageUrlPart (d # v)]] \<and>
   build_messages prompt_text (Some (c # u)) (Some (d # v)) =
     [Message ''user'' [TextPart prompt_text, ImageUrlPart (c # u), ImageUrlPart (d # v)]] \<and>
   build_messages prompt_text (Some []) reference_url =
     build_messages prompt_text None reference_url \<and>
   build_messages prompt_text initial_url (Some []) =
     build_messages prompt_text initial_url None \<and>
   (\<exists>cs. calls (snd (generate_image_body E prompt_text initial_url reference_url api_key model
                       http_referer x_title extra_body s)) =
          calls s @ ChatCompletionsCreate
            (ChatRequest (resolve_key E api_key) model
               (build_messages prompt_text initial_url reference_url)
               (request_headers http_referer x_title) (or_empty extra_body)) # cs)"
  using sync_request_and_extract_bytes_calls
          [of E "resolve_key E api_key" "build_messages prompt_text initial_url reference_url"
              prompt_text initial_url reference_url model http_referer x_title extra_body s]
  by (simp add: build_messages_def truthy_str_def generate_image_body_def Let_def)

theorem build_messages_content_order_witness:
  "build_messages ''swap background'' None None =
     [Message ''user'' [TextPart ''swap background'']] \<and>
   build_messages ''swap background'' (Some initial_url_1) None =
     [Message ''user'' [TextPart ''swap background'', ImageUrlPart initial_url_1]] \<and>
   build_messages ''swap background'' None (Some reference_url_1) =
     [Message ''user'' [TextPart ''swap background'', ImageUrlPart reference_url_1]] \<and>
   build_messages ''swap background'' (Some initial_url_1) (Some reference_url_1) =
     [Message ''user'' [TextPart ''swap background'', ImageUrlPart initial_url_1,
                        ImageUrlPart reference_url_1]] \<and>
   build_messages ''swap background'' (Some []) (Some reference_url_1) =
     [Message ''user'' [TextPart ''swap background'', ImageUrlPart reference_url_1]]"
proof -
  have i: "initial_url_1 = CHR ''h'' # tl initial_url_1"
    and r: "reference_url_1 = CHR ''h'' # tl reference_url_1"
    by (simp_all add: initial_url_1_def reference_url_1_def)
  from build_messages_content_order
         [of "''swap background''" "CHR ''h''" "tl initial_url_1" "CHR ''h''"
             "tl reference_url_1" "Some reference_url_1" None provider_down None model_1
             None None None start]
       i r
  show ?thesis by simp
qed

subsection \<open>The scan of a parts list\<close>

text \<open>
  Claim C4 says that a URL-fetch failure (transient or actionable) inside the scan of a
  parts list propagates out of the scan. The handler around each part is
  \<^verbatim>\<open>except Exception: continue\<close>: here a part whose fetch gets 503, and one whose fetch
  gets 404, each fail in \<open>extract_bytes_from_part\<close>, and the scan returns nothing
  instead of the failure.
\<close>

theorem url_fetch_error_skipped_counterexample:
  "fst (extract_bytes_from_part provider_down (url_part ''https://cdn.example/busy.png'') start) =
     Inl (UpstreamUnavailable ''Upstream URL fetch failed: 503'') \<and>
   fst (extract_bytes_from_parts provider_down [url_part ''https://cdn.example/busy.png''] start) =
     Inr None \<and>
   fst (extract_bytes_from_part provider_down (url_part ''https://cdn.example/gone.png'') start) =
     Inl (ImageGenerationError ''Failed to fetch image URL: 404'') \<and>
   fst (extract_bytes_from_parts provider_down [url_part ''https://cdn.example/gone.png''] start) =
     Inr None"
  by (simp add: extract_bytes_from_part_def url_part_def truthy_str_def fetch_bytes_from_url_def
        stub_get str_int_examples Let_def)

text \<open>
  Claim C4, amended. The scan of a parts list never fails: a part whose extraction raises,
  the URL-fetch failures included, is skipped and the scan goes on with the next part from
  the state the failed part left; a part that yields nothing (or empty bytes) is passed
  over in the same way; the first part that yields bytes ends the scan with them.
\<close>

theorem parts_scan_skips_every_error:
  "(\<exists>found. fst (extract_bytes_from_parts E parts s) = Inr found) \<and>
   (fst (extract_bytes_from_part E p s) = Inl e \<longrightarrow>
      extract_bytes_from_parts E (p # parts) s =
        extract_bytes_from_parts E parts (snd (extract_bytes_from_part E p s))) \<and>
   (fst (extract_bytes_from_part E p s) = Inr found \<and> \<not> truthy_bytes found \<longrightarrow>
      extract_bytes_from_parts E (p # parts) s =
        extract_bytes_from_parts E parts (snd (extract_bytes_from_part E p s))) \<and>
   (fst (extract_bytes_from_part E p s) = Inr found \<and> truthy_bytes found \<longrightarrow>
      extract_bytes_from_parts E (p # parts) s = (Inr found, snd (extract_bytes_from_part E p s)))"
  using extract_bytes_from_parts_no_error [of E parts s]
  by (cases "extract_bytes_from_part E p s") auto

theorem parts_scan_skips_every_error_witness:
  "fst (extract_bytes_from_part provider_down (url_part ''https://cdn.example/busy.png'') start) =
     Inl (UpstreamUnavailable ''Upstream URL fetch failed: 503'') \<and>
   extract_bytes_from_parts provider_down
       [url_part ''https://cdn.example/busy.png'', b64_part ''iVBORw==''] start =
     (Inr (Some png_bytes), \<lparr> world = 0, calls = [RequestsGet ''https://cdn.example/busy.png''] \<rparr>) \<and>
   extract_bytes_from_parts provider_down [text_part, b64_part ''iVBORw==''] start =
     (Inr (Some png_bytes), start)"
proof -
  have t: "extract_bytes_from_part provider_down text_part start = (Inr None, start)"
    by (simp add: extract_bytes_from_part_def text_part_def truthy_str_def Let_def)
  have nt: "\<not> truthy_bytes None" and tp: "truthy_bytes (Some png_bytes)"
    by (simp_all add: truthy_bytes_def png_bytes_def)
  note a = parts_scan_skips_every_error
             [of provider_down "[b64_part ''iVBORw=='']" start
                 "url_part ''https://cdn.example/busy.png''"
                 "UpstreamUnavailable ''Upstream URL fetch failed: 503''" None]
  note b = parts_scan_skips_every_error
             [of provider_down "[]" "\<lparr> world = 0, calls = [RequestsGet ''https://cdn.example/busy.png''] \<rparr>"
                 "b64_part ''iVBORw==''" undefined "Some png_bytes"]
  note c = parts_scan_skips_every_error
             [of provider_down "[b64_part ''iVBORw=='']" start text_part undefined None]
  note d = parts_scan_skips_every_error
             [of provider_down "[]" start "b64_part ''iVBORw==''" undefined "Some png_bytes"]
  from a b c d busy_part t nt tp show ?thesis
    by (simp add: b64_part_after_busy)
qed

subsection \<open>When the fallback request is sent\<close>

text \<open>
  Claim C3 says that the fallback request is sent for every primary reply from which no
  payload was extracted, plain text without a URL included. For such a text reply the code
  raises at once: one chat request, no fallback request, and the failure is the one for
  text content, although the fallback would have returned an image here.
\<close>

theorem no_fallback_after_text_counterexample:
  "generate_image provider_text_only ''swap background'' (Some initial_url_1) None None model_1
     None None None start =
   ((Inl (ImageGenerationError ''Upstream returned text content without an image URL''), 1),
    \<lparr> world = 1,
      calls = [ChatCompletionsCreate
                 (ChatRequest (Some ''sk-test'') model_1
                    [Message ''user'' [TextPart ''swap background'', ImageUrlPart initial_url_1]]
                    None [])] \<rparr>)"
  by (simp add: provider_text_only_def client_defs scenario_defs retrying.simps
        no_url_in_refusal Let_def)

text \<open>
  Claim C3, amended. When the first choice's content is plain text without a URL (the
  search for \<^verbatim>\<open>https?://\S+\<close> finds no match),
  \<open>generate_image\<close> fails at once, after one attempt, with \<open>ImageGenerationError\<close>
  (text content without an image URL) and sends no fallback request. When the content is a
  parts list that yields no payload, or is neither text nor a list, the attempt sends the
  fallback request next, and its outcome is the fallback's: the fallback's payload, the
  fallback's own failure, or \<open>ImageGenerationError\<close> (no image payload) when the
  fallback yields nothing either. An attempt that does not fail with
  \<open>UpstreamUnavailable\<close> is the only attempt and its outcome is the call's.
\<close>

theorem fallback_issued_unless_text_content:
  assumes chat: "chat_completions_create E
             (primary_request E prompt_text initial_url reference_url api_key model http_referer
                x_title extra_body) (world s) =
           (Returned (ChatCompletion (content # other_choices)), w)"
  shows "(content = ContentStr reply_text \<and> extract_url_from_text reply_text = None \<longrightarrow>
            generate_image E prompt_text initial_url reference_url api_key model http_referer
                x_title extra_body s =
              ((Inl (ImageGenerationError
                       ''Upstream returned text content without an image URL''), 1),
               \<lparr> world = w,
                 calls = calls s @ [ChatCompletionsCreate
                   (primary_request E prompt_text initial_url reference_url api_key model
                      http_referer x_title extra_body)] \<rparr>)) \<and>
         (content = ContentOther \<and>
            after_scan = \<lparr> world = w,
                   calls = calls s @ [ChatCompletionsCreate
                     (primary_request E prompt_text initial_url reference_url api_key model
                        http_referer x_title extra_body)] \<rparr> \<or>
          (\<exists>parts found. content = ContentList parts \<and>
             extract_bytes_from_parts E parts
               \<lparr> world = w,
                 calls = calls s @ [ChatCompletionsCreate
                   (primary_request E prompt_text initial_url reference_url api_key model
                      http_referer x_title extra_body)] \<rparr> = (Inr found, after_scan) \<and>
             \<not> truthy_bytes found) \<longrightarrow>
            (\<exists>cs. calls (snd (generate_image_body E prompt_text initial_url reference_url api_key
                                 model http_referer x_title extra_body s)) =
                   calls after_scan @
                   ResponsesCreate (fallback_request E prompt_text initial_url reference_url
                                      api_key model extra_body) # cs) \<and>
            fst (generate_image_body E prompt_text initial_url reference_url api_key model
                   http_referer x_title extra_body s) =
              (case fst (responses_fallback E (resolve_key E api_key) model prompt_text
                           initial_url reference_url extra_body after_scan) of
                 Inl e \<Rightarrow> Inl e
               | Inr found2 \<Rightarrow>
                   if truthy_bytes found2 then Inr (the found2)
                   else Inl (ImageGenerationError
                               ''Upstream did not include an image payload''))) \<and>
         ((\<forall>m. fst (generate_image_body E prompt_text initial_url reference_url api_key model
                      http_referer x_title extra_body s) \<noteq> Inl (UpstreamUnavailable m)) \<longrightarrow>
            generate_image E prompt_text initial_url reference_url api_key model http_referer
                x_title extra_body s =
              ((fst (generate_image_body E prompt_text initial_url reference_url api_key model
                       http_referer x_title extra_body s), 1),
               snd (generate_image_body E prompt_text initial_url reference_url api_key model
                      http_referer x_title extra_body s)))"
proof -
  let ?body = "generate_image_body E prompt_text initial_url reference_url api_key model
                 http_referer x_title extra_body s"
  let ?s1 = "\<lparr> world = w,
               calls = calls s @ [ChatCompletionsCreate
                 (primary_request E prompt_text initial_url reference_url api_key model
                    http_referer x_title extra_body)] \<rparr>"
  let ?fb = "responses_fallback E (resolve_key E api_key) model prompt_text initial_url
               reference_url extra_body after_scan"
  have a: "generate_image E prompt_text initial_url reference_url api_key model http_referer
                x_title extra_body s =
              ((Inl (ImageGenerationError
                       ''Upstream returned text content without an image URL''), 1), ?s1)"
    if "content = ContentStr reply_text" "extract_url_from_text reply_text = None"
  proof -
    have "?body = (Inl (ImageGenerationError
                       ''Upstream returned text content without an image URL''), ?s1)"
      using chat that
      by (simp add: generate_image_body_def sync_request_and_extract_bytes_def
            primary_request_def Let_def)
    then show ?thesis by (simp add: generate_image_def retrying_not_matched)
  qed
  have b: "(\<exists>cs. calls (snd ?body) =
                   calls after_scan @
                   ResponsesCreate (fallback_request E prompt_text initial_url reference_url
                                      api_key model extra_body) # cs) \<and>
            fst ?body =
              (case fst ?fb of
                 Inl e \<Rightarrow> Inl e
               | Inr found2 \<Rightarrow>
                   if truthy_bytes found2 then Inr (the found2)
                   else Inl (ImageGenerationError
                               ''Upstream did not include an image payload''))"
    if c: "content = ContentOther \<and> after_scan = ?s1 \<or>
          (\<exists>parts found. content = ContentList parts \<and>
             extract_bytes_from_parts E parts ?s1 = (Inr found, after_scan) \<and> \<not> truthy_bytes found)"
  proof -
    have eq: "?body =
         (case ?fb of
            (Inl e, s3) \<Rightarrow> (Inl e, s3)
          | (Inr found2, s3) \<Rightarrow>
              if truthy_bytes found2 then (Inr (the found2), s3)
              else (Inl (ImageGenerationError ''Upstream did not include an image payload''), s3))"
      unfolding generate_image_body_def Let_def
      by (rule sync_after_scan [where w = w and content = content and other_choices = other_choices])
         (use chat c in \<open>simp_all add: primary_request_def\<close>)
    have sn: "snd ?body = snd ?fb"
      unfolding eq by (auto split: prod.splits sum.splits)
    have ft: "fst ?body =
              (case fst ?fb of
                 Inl e \<Rightarrow> Inl e
               | Inr found2 \<Rightarrow>
                   if truthy_bytes found2 then Inr (the found2)
                   else Inl (ImageGenerationError
                               ''Upstream did not include an image payload''))"
      unfolding eq by (auto split: prod.splits sum.splits)
    from responses_fallback_calls [of E "resolve_key E api_key" model prompt_text initial_url
            reference_url extra_body after_scan] sn ft
    show ?thesis by (simp add: fallback_request_def)
  qed
  from a b generate_image_first_attempt_final
         [of E prompt_text initial_url reference_url api_key model http_referer x_title
             extra_body s]
  show ?thesis by blast
qed

theorem fallback_issued_unless_text_content_witness:
  "generate_image provider_text_only ''swap background'' (Some initial_url_1)
     (Some reference_url_1) None model_1 None None None start =
   ((Inl (ImageGenerationError ''Upstream returned text content without an image URL''), 1),
    \<lparr> world = 1,
      calls = [ChatCompletionsCreate
                 (primary_request provider_text_only ''swap background'' (Some initial_url_1)
                    (Some reference_url_1) None model_1 None None None)] \<rparr>) \<and>
   generate_image provider_parts_only ''swap background'' (Some initial_url_1) None None model_1
     None None None start =
   ((Inr png_bytes, 1),
    \<lparr> world = 1,
      calls = [ChatCompletionsCreate
                 (primary_request provider_parts_only ''swap background'' (Some initial_url_1)
                    None None model_1 None None None),
               ResponsesCreate
                 (fallback_request provider_parts_only ''swap background'' (Some initial_url_1)
                    None None model_1 None)] \<rparr>) \<and>
   generate_image provider_nothing ''swap background'' (Some initial_url_1) None None model_1
     None None None start =
   ((Inl (ImageGenerationError ''Upstream did not include an image payload''), 1),
    \<lparr> world = 1,
      calls = [ChatCompletionsCreate
                 (primary_request provider_nothing ''swap background'' (Some initial_url_1)
                    None None model_1 None None None),
               ResponsesCreate
                 (fallback_request provider_nothing ''swap background'' (Some initial_url_1)
                    None None model_1 None)] \<rparr>)"
proof -
  let ?s1 = "\<lambda>E. \<lparr> world = 1::nat,
                    calls = [ChatCompletionsCreate
                      (primary_request E ''swap background'' (Some initial_url_1)
                         None None model_1 None None None)] \<rparr>"
  have c1: "chat_completions_create provider_text_only
              (primary_request provider_text_only ''swap background'' (Some initial_url_1)
                 (Some reference_url_1) None model_1 None None None) (world start) =
            (Returned (ChatCompletion [ContentStr (codepoints ''I cannot edit this image.'')]), 1)"
    by (simp add: provider_text_only_def stub_env_def start_def)
  have c2: "chat_completions_create provider_parts_only
              (primary_request provider_parts_only ''swap background'' (Some initial_url_1)
                 None None model_1 None None None) (world start) =
            (Returned (ChatCompletion [ContentList [text_part]]), 1)"
    by (simp add: provider_parts_only_def stub_env_def start_def)
  have c3: "chat_completions_create provider_nothing
              (primary_request provider_nothing ''swap background'' (Some initial_url_1)
                 None None model_1 None None None) (world start) =
            (Returned (ChatCompletion [ContentOther]), 1)"
    by (simp add: provider_nothing_def stub_env_def start_def)
  have no_url: "extract_url_from_text (codepoints ''I cannot edit this image.'') = None"
    by (rule no_url_in_refusal)
  have scan: "extract_bytes_from_parts provider_parts_only [text_part]
                \<lparr> world = 1, calls = calls start @ [ChatCompletionsCreate
                      (primary_request provider_parts_only ''swap background''
                         (Some initial_url_1) None None model_1 None None None)] \<rparr> =
              (Inr None, ?s1 provider_parts_only)"
    by (simp add: extract_bytes_from_part_def text_part_def truthy_str_def truthy_bytes_def
          start_def Let_def)
  have s3: "?s1 provider_nothing =
              \<lparr> world = 1, calls = calls start @ [ChatCompletionsCreate
                      (primary_request provider_nothing ''swap background''
                         (Some initial_url_1) None None model_1 None None None)] \<rparr>"
    by (simp add: start_def)
  have fb2: "responses_fallback provider_parts_only (resolve_key provider_parts_only None) model_1
               ''swap background'' (Some initial_url_1) None None (?s1 provider_parts_only) =
             (Inr (Some png_bytes),
              \<lparr> world = 1,
                calls = calls (?s1 provider_parts_only) @
                  [ResponsesCreate (fallback_request provider_parts_only ''swap background''
                     (Some initial_url_1) None None model_1 None)] \<rparr>)"
    by (simp add: provider_parts_only_def client_defs scenario_defs Let_def)
  have fb3: "responses_fallback provider_nothing (resolve_key provider_nothing None) model_1
               ''swap background'' (Some initial_url_1) None None (?s1 provider_nothing) =
             (Inr None,
              \<lparr> world = 1,
                calls = calls (?s1 provider_nothing) @
                  [ResponsesCreate (fallback_request provider_nothing ''swap background''
                     (Some initial_url_1) None None model_1 None)] \<rparr>)"
    by (simp add: provider_nothing_def client_defs scenario_defs Let_def)
  note t1 = fallback_issued_unless_text_content
              [OF c1, where reply_text = "codepoints ''I cannot edit this image.''"]
  note t2 = fallback_issued_unless_text_content
              [OF c2, where after_scan = "?s1 provider_parts_only"]
  note t3 = fallback_issued_unless_text_content
              [OF c3, where after_scan = "?s1 provider_nothing"]
  have g1: "generate_image provider_text_only ''swap background'' (Some initial_url_1)
     (Some reference_url_1) None model_1 None None None start =
   ((Inl (ImageGenerationError ''Upstream returned text content without an image URL''), 1),
    \<lparr> world = 1,
      calls = [ChatCompletionsCreate
                 (primary_request provider_text_only ''swap background'' (Some initial_url_1)
                    (Some reference_url_1) None model_1 None None None)] \<rparr>)"
    using t1 no_url by (simp add: start_def)
  have b2: "fst (generate_image_body provider_parts_only ''swap background'' (Some initial_url_1)
                   None None model_1 None None None start) = Inr png_bytes"
    using t2 scan fb2 by (simp add: truthy_bytes_def png_bytes_def)
  have b3: "fst (generate_image_body provider_nothing ''swap background'' (Some initial_url_1)
                   None None model_1 None None None start) =
            Inl (ImageGenerationError ''Upstream did not include an image payload'')"
    using t3 s3 fb3 by (simp add: truthy_bytes_def)
  have g2: "generate_image provider_parts_only ''swap background'' (Some initial_url_1) None None
              model_1 None None None start =
            ((Inr png_bytes, 1),
             snd (generate_image_body provider_parts_only ''swap background'' (Some initial_url_1)
                   None None model_1 None None None start))"
    using t2 b2 by simp
  have g3: "generate_image provider_nothing ''swap background'' (Some initial_url_1) None None
              model_1 None None None start =
            ((Inl (ImageGenerationError ''Upstream did not include an image payload''), 1),
             snd (generate_image_body provider_nothing ''swap background'' (Some initial_url_1)
                   None None model_1 None None None start))"
    using t3 b3 by simp
  have e2: "snd (generate_image_body provider_parts_only ''swap background'' (Some initial_url_1)
                   None None model_1 None None None start) =
            \<lparr> world = 1,
              calls = [ChatCompletionsCreate
                 (primary_request provider_parts_only ''swap background'' (Some initial_url_1)
                    None None model_1 None None None),
               ResponsesCreate
                 (fallback_request provider_parts_only ''swap background'' (Some initial_url_1)
                    None None model_1 None)] \<rparr>"
    by (simp add: provider_parts_only_def client_defs scenario_defs Let_def)
  have e3: "snd (generate_image_body provider_nothing ''swap background'' (Some initial_url_1)
                   None None model_1 None None None start) =
            \<lparr> world = 1,
              calls = [ChatCompletionsCreate
                 (primary_request provider_nothing ''swap background'' (Some initial_url_1)
                    None None model_1 None None None),
               ResponsesCreate
                 (fallback_request provider_nothing ''swap background'' (Some initial_url_1)
                    None None model_1 None)] \<rparr>"
    by (simp add: provider_nothing_def client_defs scenario_defs Let_def)
  from g1 g2 g3 e2 e3 show ?thesis by simp
qed

end
